theory Spec2Isabelle
  imports Complex_Main "HOL-Library.Multiset"
begin

section \<open>Tensors, errors and library layers\<close>

text \<open>
  The networks of \<^verbatim>\<open>portfolio_models.py\<close> are embedded over the reals: a tensor
  element is a \<^typ>\<open>real\<close>, so rounding is outside the model. A tensor carries its shape
  next to its elements, because an empty batch still has a width. Every shape check of
  the library reads the shape fields only, as the library does. An observation batch is
  a matrix (batch size, width); tensors of another rank are not part of the model.
\<close>

datatype error =
  RuntimeError | ZeroDivisionError | ValueError | AttributeError | TypeError | IndexError

record tensor2 =
  size0 :: nat
  size1 :: nat
  stride0 :: nat
  stride1 :: nat
  data2 :: "real list list"

record tensor3 =
  dim0 :: nat
  dim1 :: nat
  dim2 :: nat
  data3 :: "real list list list"

definition tensor2_wf :: "tensor2 \<Rightarrow> bool" where
  "tensor2_wf t \<longleftrightarrow>
     length (data2 t) = size0 t \<and> list_all (\<lambda>r. length r = size1 t) (data2 t)"

definition tensor3_wf :: "tensor3 \<Rightarrow> bool" where
  "tensor3_wf t \<longleftrightarrow>
     length (data3 t) = dim0 t \<and>
     list_all (\<lambda>m. length m = dim1 t \<and> list_all (\<lambda>r. length r = dim2 t) m) (data3 t)"

definition numel2 :: "tensor2 \<Rightarrow> nat" where
  "numel2 t = size0 t * size1 t"

definition numel3 :: "tensor3 \<Rightarrow> nat" where
  "numel3 t = dim0 t * dim1 t * dim2 t"

text \<open>\<^verbatim>\<open>on_ok r s k\<close>: an exception in \<^verbatim>\<open>r\<close> leaves the call with the object as it is
  at that moment (\<^verbatim>\<open>s\<close>); otherwise the computation goes on with the value.\<close>

definition on_ok :: "error + 'a \<Rightarrow> 's \<Rightarrow> ('a \<Rightarrow> (error + 'b) \<times> 's) \<Rightarrow> (error + 'b) \<times> 's" where
  "on_ok r s k = (case r of Inl e \<Rightarrow> (Inl e, s) | Inr x \<Rightarrow> k x)"

text \<open>\<^verbatim>\<open>torch.zeros(b, n)\<close>.\<close>

definition zeros :: "nat \<Rightarrow> nat \<Rightarrow> tensor2" where
  "zeros b n = \<lparr>size0 = b, size1 = n, stride0 = max 1 n, stride1 = 1, data2 = replicate b (replicate n 0)\<rparr>"

text \<open>\<^verbatim>\<open>torch.cat((a, b), dim=1)\<close> on matrices: the batch sizes must agree.\<close>

definition cat1 :: "tensor2 \<Rightarrow> tensor2 \<Rightarrow> error + tensor2" where
  "cat1 a b =
     (if size0 a = size0 b
      then Inr \<lparr>size0 = size0 a, size1 = size1 a + size1 b, stride0 = max 1 (size1 a + size1 b), stride1 = 1,
                data2 = map2 (@) (data2 a) (data2 b)\<rparr>
      else Inl RuntimeError)"

text \<open>The slices \<^verbatim>\<open>t[:, :k]\<close> and \<^verbatim>\<open>t[:, k:]\<close> for \<^verbatim>\<open>k \<ge> 0\<close>: Python clamps the bound
  to the width.\<close>

definition narrow_to :: "nat \<Rightarrow> tensor2 \<Rightarrow> tensor2" where
  "narrow_to k t = \<lparr>size0 = size0 t, size1 = min k (size1 t), stride0 = stride0 t, stride1 = stride1 t, data2 = map (take k) (data2 t)\<rparr>"

definition narrow_from :: "nat \<Rightarrow> tensor2 \<Rightarrow> tensor2" where
  "narrow_from k t = \<lparr>size0 = size0 t, size1 = size1 t - k, stride0 = stride0 t, stride1 = stride1 t, data2 = map (drop k) (data2 t)\<rparr>"

text \<open>Row-major regrouping of a flat element list into \<^verbatim>\<open>b\<close> pieces of \<^verbatim>\<open>m\<close>.\<close>

definition chunks :: "nat \<Rightarrow> nat \<Rightarrow> 'a list \<Rightarrow> 'a list list" where
  "chunks b m xs = map (\<lambda>i. take m (drop (i * m) xs)) [0..<b]"

text \<open>
  Strides. A matrix carries the strides of its two dimensions, in elements. A freshly
  allocated matrix of width \<^verbatim>\<open>w\<close> has strides \<^verbatim>\<open>(max 1 w, 1)\<close>; a column slice keeps the
  strides of the tensor it is cut from.

  \<^verbatim>\<open>Tensor.view\<close> first checks that the requested shape has as many elements as the
  tensor, then asks whether the requested shape can be laid over the tensor's memory
  without copying. The library decides this dimension by dimension from the innermost
  one: old dimensions that are adjacent in memory form a chunk, and the requested
  dimensions have to fill every chunk exactly. \<^verbatim>\<open>computeStride\<close> follows the library's
  routine of that name and returns the strides of the view, or \<^verbatim>\<open>None\<close> where the library
  raises RuntimeError.
\<close>

fun consume ::
  "nat \<Rightarrow> nat \<Rightarrow> nat \<Rightarrow> nat list \<Rightarrow> nat list \<Rightarrow> (nat list \<times> nat list) option" where
  "consume tensor_numel base view_numel [] acc =
     (if view_numel = tensor_numel then Some ([], acc) else None)"
| "consume tensor_numel base view_numel (d # ds) acc =
     (if view_numel < tensor_numel \<or> d = 1
      then consume tensor_numel base (view_numel * d) ds ((view_numel * base) # acc)
      else if view_numel = tensor_numel then Some (d # ds, acc) else None)"

fun chunk_walk ::
  "(nat \<times> nat) list \<Rightarrow> nat \<Rightarrow> nat \<Rightarrow> nat list \<Rightarrow> nat list \<Rightarrow> nat list option" where
  "chunk_walk [] base tensor_numel view acc = (if view = [] then Some acc else None)"
| "chunk_walk ((sz, st) # outer) base tensor_numel view acc =
     (let tensor_numel = tensor_numel * sz in
      case outer of
        [] \<Rightarrow>
          (case consume tensor_numel base 1 view acc of
             None \<Rightarrow> None
           | Some (view', acc') \<Rightarrow> chunk_walk [] base 1 view' acc')
      | (sz', st') # _ \<Rightarrow>
          if sz' \<noteq> 1 \<and> st' \<noteq> tensor_numel * base
          then (case consume tensor_numel base 1 view acc of
                  None \<Rightarrow> None
                | Some (view', acc') \<Rightarrow> chunk_walk outer st' 1 view' acc')
          else chunk_walk outer base tensor_numel view acc)"

definition contiguous_strides :: "nat list \<Rightarrow> nat list" where
  "contiguous_strides sh = map (\<lambda>i. prod_list (map (max 1) (drop (Suc i) sh))) [0..<length sh]"

definition computeStride :: "nat list \<Rightarrow> nat list \<Rightarrow> nat list \<Rightarrow> nat list option" where
  "computeStride oldshape oldstride newshape =
     (if oldshape = [] then Some (replicate (length newshape) 1)
      else if prod_list oldshape = 0
      then Some (if oldshape = newshape then oldstride else contiguous_strides newshape)
      else chunk_walk (rev (zip oldshape oldstride)) (last oldstride) 1 (rev newshape) [])"

text \<open>
  \<^verbatim>\<open>t.view(b, n, k)\<close> on a matrix: RuntimeError unless the element counts agree and the
  strides allow the view. The elements keep their row-major order. The result is only
  ever passed to a layer, so its strides are not kept.
\<close>

definition view3 :: "tensor2 \<Rightarrow> nat \<Rightarrow> nat \<Rightarrow> nat \<Rightarrow> error + tensor3" where
  "view3 t b n k =
     (if b * n * k \<noteq> numel2 t then Inl RuntimeError
      else case computeStride [size0 t, size1 t] [stride0 t, stride1 t] [b, n, k] of
             None \<Rightarrow> Inl RuntimeError
           | Some _ \<Rightarrow>
               Inr \<lparr>dim0 = b, dim1 = n, dim2 = k,
                    data3 = map (chunks n k) (chunks b (n * k) (concat (data2 t)))\<rparr>)"

text \<open>
  \<^verbatim>\<open>t.view(b, m)\<close> on a tensor of three dimensions. The source applies it to the output of
  a layer and to the result of a concatenation, both freshly allocated, where the element
  count alone decides.
\<close>

definition view2 :: "tensor3 \<Rightarrow> nat \<Rightarrow> nat \<Rightarrow> error + tensor2" where
  "view2 t b m =
     (if b * m = numel3 t
      then Inr \<lparr>size0 = b, size1 = m, stride0 = max 1 m, stride1 = 1, data2 = chunks b m (concat (concat (data3 t)))\<rparr>
      else Inl RuntimeError)"

text \<open>
  \<^verbatim>\<open>nn.Linear\<close>: a weight matrix of shape (out_features, in_features), given by its
  entries, and a bias. Applied to the last dimension, which must be \<^verbatim>\<open>in_features\<close> wide.
\<close>

record linear =
  in_features :: nat
  out_features :: nat
  weight :: "nat \<Rightarrow> nat \<Rightarrow> real"
  bias :: "nat \<Rightarrow> real"

definition linear_row :: "linear \<Rightarrow> real list \<Rightarrow> real list" where
  "linear_row L x =
     map (\<lambda>i. (\<Sum>j\<leftarrow>[0..<in_features L]. x ! j * weight L i j) + bias L i) [0..<out_features L]"

definition linear3 :: "linear \<Rightarrow> tensor3 \<Rightarrow> error + tensor3" where
  "linear3 L t =
     (if dim2 t = in_features L
      then Inr \<lparr>dim0 = dim0 t, dim1 = dim1 t, dim2 = out_features L,
                data3 = map (map (linear_row L)) (data3 t)\<rparr>
      else Inl RuntimeError)"

definition linear2 :: "linear \<Rightarrow> tensor2 \<Rightarrow> error + tensor2" where
  "linear2 L t =
     (if size1 t = in_features L
      then Inr \<lparr>size0 = size0 t, size1 = out_features L, stride0 = max 1 (out_features L), stride1 = 1, data2 = map (linear_row L) (data2 t)\<rparr>
      else Inl RuntimeError)"

definition relu :: "real \<Rightarrow> real" where
  "relu x = max 0 x"

definition relu3 :: "tensor3 \<Rightarrow> tensor3" where
  "relu3 t = t\<lparr>data3 := map (map (map relu)) (data3 t)\<rparr>"

definition relu2 :: "tensor2 \<Rightarrow> tensor2" where
  "relu2 t = t\<lparr>data2 := map (map relu) (data2 t)\<rparr>"

text \<open>
  Initialisation. A layer's constructor fills it from the process-wide generator, and
  \<^verbatim>\<open>uniform_(lo, hi)\<close> overwrites a weight with \<^verbatim>\<open>lo + (hi - lo) * u\<close> for raw draws
  \<^verbatim>\<open>u\<close> in [0, 1). The model takes what the generator yields for one layer as an argument.
\<close>

record draws =
  default_weight :: "nat \<Rightarrow> nat \<Rightarrow> real"
  default_bias :: "nat \<Rightarrow> real"
  uniform01 :: "nat \<Rightarrow> nat \<Rightarrow> real"

definition nn_Linear :: "nat \<Rightarrow> nat \<Rightarrow> draws \<Rightarrow> linear" where
  "nn_Linear i o_f d =
     \<lparr>in_features = i, out_features = o_f, weight = default_weight d, bias = default_bias d\<rparr>"

text \<open>
  \<^verbatim>\<open>weight.data.uniform_(lo, hi)\<close> followed by \<^verbatim>\<open>bias.data.fill_(0)\<close>. The bound is the
  one of \<^verbatim>\<open>hidden_init\<close>, \<^verbatim>\<open>1.0 / np.sqrt(fan_in)\<close> with \<^verbatim>\<open>fan_in = weight.size()[1]\<close>.
  For \<^verbatim>\<open>fan_in = 0\<close> numpy yields an infinite bound, which \<^verbatim>\<open>uniform_\<close> rejects with
  RuntimeError.
\<close>

definition uniform_fill :: "real \<Rightarrow> real \<Rightarrow> draws \<Rightarrow> linear \<Rightarrow> linear" where
  "uniform_fill lo hi d L =
     L\<lparr>weight := (\<lambda>r c. lo + (hi - lo) * uniform01 d r c), bias := (\<lambda>_. 0)\<rparr>"

definition hidden_init :: "linear \<Rightarrow> error + real \<times> real" where
  "hidden_init layer =
     (let fan_in = in_features layer in
      if fan_in = 0 then Inl RuntimeError
      else let lim = 1 / sqrt (real fan_in) in Inr (- lim, lim))"

definition reset_hidden :: "draws \<Rightarrow> linear \<Rightarrow> error + linear" where
  "reset_hidden d L =
     (case hidden_init L of Inl e \<Rightarrow> Inl e | Inr (lo, hi) \<Rightarrow> Inr (uniform_fill lo hi d L))"

section \<open>AssetEncoder\<close>

record asset_encoder =
  features_per_asset :: nat
  encoding_size :: nat
  output_size :: nat
  enc_fc1 :: linear
  enc_fc2 :: linear
  first_forward_done :: bool

text \<open>\<^verbatim>\<open>AssetEncoder.__init__\<close>; \<^verbatim>\<open>output_size or encoding_size\<close> takes the second for
  \<^verbatim>\<open>None\<close> and for 0.\<close>

definition AssetEncoder_init ::
  "nat \<Rightarrow> nat \<Rightarrow> nat option \<Rightarrow> draws \<Rightarrow> draws \<Rightarrow> error + asset_encoder" where
  "AssetEncoder_init fpa enc_size out d1 d2 =
     (let out_size = (case out of None \<Rightarrow> enc_size | Some n \<Rightarrow> if n = 0 then enc_size else n) in
      case reset_hidden d1 (nn_Linear fpa 32 d1) of Inl e \<Rightarrow> Inl e | Inr l1 \<Rightarrow>
      case reset_hidden d2 (nn_Linear 32 out_size d2) of Inl e \<Rightarrow> Inl e | Inr l2 \<Rightarrow>
        Inr \<lparr>features_per_asset = fpa, encoding_size = enc_size, output_size = out_size,
             enc_fc1 = l1, enc_fc2 = l2, first_forward_done = False\<rparr>)"

text \<open>What the constructor establishes and no method changes, unless the fallback runs.\<close>

definition encoder_wf :: "asset_encoder \<Rightarrow> bool" where
  "encoder_wf self \<longleftrightarrow>
     in_features (enc_fc1 self) = features_per_asset self \<and>
     out_features (enc_fc1 self) = in_features (enc_fc2 self) \<and>
     out_features (enc_fc2 self) = output_size self"

text \<open>Lines 80-87 of \<^verbatim>\<open>forward\<close>: zero padding up to the asset block, then the split
  into asset block and tail.\<close>

definition pad_state :: "asset_encoder \<Rightarrow> tensor2 \<Rightarrow> nat \<Rightarrow> error + tensor2" where
  "pad_state self state num_assets =
     (let batch_size = size0 state;
          total_features = size1 state;
          asset_features_total = num_assets * features_per_asset self
      in if total_features < asset_features_total
         then cat1 state (zeros batch_size (asset_features_total - total_features))
         else Inr state)"

definition asset_block :: "asset_encoder \<Rightarrow> tensor2 \<Rightarrow> nat \<Rightarrow> tensor2" where
  "asset_block self state num_assets = narrow_to (num_assets * features_per_asset self) state"

definition extra_block :: "asset_encoder \<Rightarrow> tensor2 \<Rightarrow> nat \<Rightarrow> tensor2 option" where
  "extra_block self state num_assets =
     (let asset_features_total = num_assets * features_per_asset self
      in if size1 state > asset_features_total
         then Some (narrow_from asset_features_total state) else None)"

text \<open>Lines 89-97: the reshape and its \<^verbatim>\<open>except RuntimeError\<close> fallback. An exception
  inside the handler leaves the call, after \<^verbatim>\<open>features_per_asset\<close> was overwritten.\<close>

definition encoder_reshape ::
  "asset_encoder \<Rightarrow> tensor2 \<Rightarrow> nat \<Rightarrow> nat \<Rightarrow> (error + tensor3) \<times> asset_encoder" where
  "encoder_reshape self asset_features batch_size num_assets =
     (case view3 asset_features batch_size num_assets (features_per_asset self) of
        Inr a \<Rightarrow> (Inr a, self)
      | Inl e \<Rightarrow>
          if e \<noteq> RuntimeError then (Inl e, self)
          else let total_elements = numel2 asset_features in
            if batch_size * num_assets = 0 then (Inl ZeroDivisionError, self)
            else let safe_features_per_asset = total_elements div (batch_size * num_assets);
                     self = self\<lparr>features_per_asset := safe_features_per_asset\<rparr>;
                     asset_features =
                       narrow_to (batch_size * num_assets * safe_features_per_asset) asset_features
                 in (view3 asset_features batch_size num_assets safe_features_per_asset, self))"

text \<open>Lines 99-104: the two layers per asset, the flattening and the tail.\<close>

definition encode_assets ::
  "asset_encoder \<Rightarrow> tensor3 \<Rightarrow> tensor2 option \<Rightarrow> nat \<Rightarrow> nat \<Rightarrow> error + tensor2" where
  "encode_assets self asset_features extra_features batch_size num_assets =
     (case linear3 (enc_fc1 self) asset_features of Inl e \<Rightarrow> Inl e | Inr h \<Rightarrow>
      case linear3 (enc_fc2 self) (relu3 h) of Inl e \<Rightarrow> Inl e | Inr h2 \<Rightarrow>
      case view2 (relu3 h2) batch_size (num_assets * output_size self) of Inl e \<Rightarrow> Inl e
      | Inr asset_encodings \<Rightarrow>
          (case extra_features of
             Some ex \<Rightarrow> cat1 asset_encodings ex
           | None \<Rightarrow> Inr asset_encodings))"

definition AssetEncoder_forward ::
  "asset_encoder \<Rightarrow> tensor2 \<Rightarrow> nat \<Rightarrow> (error + tensor2) \<times> asset_encoder" where
  "AssetEncoder_forward self0 state0 num_assets =
     (let batch_size = size0 state0;
          self = self0\<lparr>first_forward_done := True\<rparr>
      in on_ok (pad_state self state0 num_assets) self (\<lambda>state.
           let asset_features = asset_block self state num_assets;
               extra_features = extra_block self state num_assets
           in case encoder_reshape self asset_features batch_size num_assets of
                (Inl e, self') \<Rightarrow> (Inl e, self')
              | (Inr a, self') \<Rightarrow>
                  (encode_assets self' a extra_features batch_size num_assets, self')))"

section \<open>AssetEncoder on tensors of any rank\<close>

datatype dtype = Float16 | Float32 | Float64 | Int64

record tensor =
  shape :: "nat list"
  strides :: "nat list"
  dtype :: dtype
  elems :: "real list"

definition tensor_wf :: "tensor \<Rightarrow> bool" where
  "tensor_wf t \<longleftrightarrow>
     length (strides t) = length (shape t) \<and> length (elems t) = prod_list (shape t)"

definition numel :: "tensor \<Rightarrow> nat" where
  "numel t = prod_list (shape t)"

definition size_of :: "tensor \<Rightarrow> nat \<Rightarrow> error + nat" where
  "size_of t d = (if d < length (shape t) then Inr (shape t ! d) else Inl IndexError)"

definition promote_types :: "dtype \<Rightarrow> dtype \<Rightarrow> dtype" where
  "promote_types a b =
     (if a = Float64 \<or> b = Float64 then Float64
      else if a = Float32 \<or> b = Float32 then Float32
      else if a = Float16 \<or> b = Float16 then Float16
      else Int64)"

definition zeros_nd :: "nat \<Rightarrow> nat \<Rightarrow> tensor" where
  "zeros_nd b n =
     \<lparr>shape = [b, n], strides = contiguous_strides [b, n], dtype = Float32,
      elems = replicate (b * n) 0\<rparr>"

definition cat_dim1 :: "tensor \<Rightarrow> tensor \<Rightarrow> error + tensor" where
  "cat_dim1 a b =
     (if length (shape a) < 2 then Inl IndexError
      else if length (shape b) = length (shape a) \<and> hd (shape b) = hd (shape a)
              \<and> drop 2 (shape b) = drop 2 (shape a)
      then let sh = (shape a)[1 := shape a ! 1 + shape b ! 1];
               inner = prod_list (drop 2 (shape a))
           in Inr \<lparr>shape = sh, strides = contiguous_strides sh,
                   dtype = promote_types (dtype a) (dtype b),
                   elems = concat (map2 (@)
                             (chunks (hd (shape a)) (shape a ! 1 * inner) (elems a))
                             (chunks (hd (shape a)) (shape b ! 1 * inner) (elems b)))\<rparr>
      else Inl RuntimeError)"

definition clamp_index :: "int \<Rightarrow> nat \<Rightarrow> nat" where
  "clamp_index k n = (if k < 0 then nat (k + int n) else min (nat k) n)"

definition slice1_to :: "tensor \<Rightarrow> int \<Rightarrow> tensor" where
  "slice1_to t k =
     (let total = shape t ! 1; stop = clamp_index k total;
          inner = prod_list (drop 2 (shape t))
      in t\<lparr>shape := (shape t)[1 := stop],
           elems := concat (map (take (stop * inner))
                      (chunks (hd (shape t)) (total * inner) (elems t)))\<rparr>)"

definition slice1_from :: "tensor \<Rightarrow> int \<Rightarrow> tensor" where
  "slice1_from t k =
     (let total = shape t ! 1; start = clamp_index k total;
          inner = prod_list (drop 2 (shape t))
      in t\<lparr>shape := (shape t)[1 := total - start],
           elems := concat (map (drop (start * inner))
                      (chunks (hd (shape t)) (total * inner) (elems t)))\<rparr>)"

definition infer_size :: "int list \<Rightarrow> nat \<Rightarrow> nat list option" where
  "infer_size dims n =
     (if list_ex (\<lambda>d. d < - 1) dims then None
      else if 1 < count_list dims (- 1) then None
      else let newsize = nat (prod_list (filter (\<lambda>d. d \<noteq> - 1) dims)) in
        if count_list dims (- 1) = 1
        then if 0 < newsize \<and> n mod newsize = 0
             then Some (map (\<lambda>d. if d = - 1 then n div newsize else nat d) dims)
             else None
        else if n = newsize then Some (map nat dims) else None)"

definition view_nd :: "tensor \<Rightarrow> int list \<Rightarrow> error + tensor" where
  "view_nd t dims =
     (case infer_size dims (numel t) of
        None \<Rightarrow> Inl RuntimeError
      | Some sh \<Rightarrow>
          (case computeStride (shape t) (strides t) sh of
             None \<Rightarrow> Inl RuntimeError
           | Some st \<Rightarrow> Inr (t\<lparr>shape := sh, strides := st\<rparr>)))"

definition linear_nd :: "linear \<Rightarrow> tensor \<Rightarrow> error + tensor" where
  "linear_nd L x =
     (if shape x = [] then Inl RuntimeError
      else if last (shape x) \<noteq> in_features L then Inl RuntimeError
      else if dtype x \<noteq> Float32 then Inl RuntimeError
      else let sh = butlast (shape x) @ [out_features L] in
        Inr \<lparr>shape = sh, strides = contiguous_strides sh, dtype = Float32,
             elems = concat (map (linear_row L)
                       (chunks (prod_list (butlast (shape x))) (in_features L) (elems x)))\<rparr>)"

definition relu_nd :: "tensor \<Rightarrow> tensor" where
  "relu_nd t = t\<lparr>elems := map relu (elems t)\<rparr>"

record asset_encoder_nd =
  features_per_asset_nd :: int
  encoding_size_nd :: nat
  output_size_nd :: nat
  fc1_nd :: linear
  fc2_nd :: linear
  first_forward_done_nd :: bool

definition pad_state_nd :: "tensor \<Rightarrow> nat \<Rightarrow> nat \<Rightarrow> int \<Rightarrow> error + tensor" where
  "pad_state_nd state batch_size total_features asset_features_total =
     (if int total_features < asset_features_total
      then let padding_needed = asset_features_total - int total_features;
               padding = zeros_nd batch_size (nat padding_needed)
           in cat_dim1 state padding
      else Inr state)"

definition encoder_reshape_nd ::
  "asset_encoder_nd \<Rightarrow> tensor \<Rightarrow> nat \<Rightarrow> int \<Rightarrow> (error + tensor) \<times> asset_encoder_nd" where
  "encoder_reshape_nd self asset_features batch_size num_assets =
     (case view_nd asset_features [int batch_size, num_assets, features_per_asset_nd self] of
        Inr a \<Rightarrow> (Inr a, self)
      | Inl e \<Rightarrow>
          if e \<noteq> RuntimeError then (Inl e, self)
          else let total_elements = numel asset_features in
            if int batch_size * num_assets = 0 then (Inl ZeroDivisionError, self)
            else let safe_features_per_asset = int total_elements div (int batch_size * num_assets);
                     self = self\<lparr>features_per_asset_nd := safe_features_per_asset\<rparr>;
                     asset_features =
                       slice1_to asset_features
                         (int batch_size * num_assets * safe_features_per_asset)
                 in (view_nd asset_features
                       [int batch_size, num_assets, safe_features_per_asset], self))"

definition encode_assets_nd ::
  "asset_encoder_nd \<Rightarrow> tensor \<Rightarrow> tensor option \<Rightarrow> nat \<Rightarrow> int \<Rightarrow> error + tensor" where
  "encode_assets_nd self asset_features extra_features batch_size num_assets =
     (case linear_nd (fc1_nd self) asset_features of Inl e \<Rightarrow> Inl e | Inr h \<Rightarrow>
      case linear_nd (fc2_nd self) (relu_nd h) of Inl e \<Rightarrow> Inl e | Inr h2 \<Rightarrow>
      case view_nd (relu_nd h2) [int batch_size, num_assets * int (output_size_nd self)] of
        Inl e \<Rightarrow> Inl e
      | Inr asset_encodings \<Rightarrow>
          (case extra_features of
             Some ex \<Rightarrow> cat_dim1 asset_encodings ex
           | None \<Rightarrow> Inr asset_encodings))"

definition AssetEncoder_forward_nd ::
  "asset_encoder_nd \<Rightarrow> tensor \<Rightarrow> int \<Rightarrow> (error + tensor) \<times> asset_encoder_nd" where
  "AssetEncoder_forward_nd self0 state0 num_assets =
     on_ok (size_of state0 0) self0 (\<lambda>batch_size.
     on_ok (size_of state0 1) self0 (\<lambda>total_features0.
       let asset_features_total = num_assets * features_per_asset_nd self0;
           self = self0\<lparr>first_forward_done_nd := True\<rparr>
       in on_ok (pad_state_nd state0 batch_size total_features0 asset_features_total) self
            (\<lambda>state.
               let total_features = shape state ! 1;
                   asset_features = slice1_to state asset_features_total;
                   extra_features =
                     (if int total_features > asset_features_total
                      then Some (slice1_from state asset_features_total) else None)
               in case encoder_reshape_nd self asset_features batch_size num_assets of
                    (Inl e, self') \<Rightarrow> (Inl e, self')
                  | (Inr a, self') \<Rightarrow>
                      (encode_assets_nd self' a extra_features batch_size num_assets, self'))))"

definition as_tensor :: "tensor2 \<Rightarrow> tensor" where
  "as_tensor t =
     \<lparr>shape = [size0 t, size1 t], strides = [stride0 t, stride1 t], dtype = Float32,
      elems = concat (data2 t)\<rparr>"

definition as_nd :: "asset_encoder \<Rightarrow> asset_encoder_nd" where
  "as_nd self =
     \<lparr>features_per_asset_nd = int (features_per_asset self),
      encoding_size_nd = encoding_size self, output_size_nd = output_size self,
      fc1_nd = enc_fc1 self, fc2_nd = enc_fc2 self,
      first_forward_done_nd = first_forward_done self\<rparr>"

section \<open>EnhancedPortfolioActor\<close>

text \<open>\<^verbatim>\<open>nn.LayerNorm(n)\<close> over the last dimension of a matrix: biased variance, affine
  weight and bias, which a fresh layer sets to one and zero, \<^verbatim>\<open>eps = 1e-5\<close>.\<close>

record layernorm =
  normalized_shape :: nat
  ln_weight :: "nat \<Rightarrow> real"
  ln_bias :: "nat \<Rightarrow> real"
  ln_eps :: real

definition nn_LayerNorm :: "nat \<Rightarrow> layernorm" where
  "nn_LayerNorm n =
     \<lparr>normalized_shape = n, ln_weight = (\<lambda>_. 1), ln_bias = (\<lambda>_. 0), ln_eps = 1 / 100000\<rparr>"

definition layernorm_row :: "layernorm \<Rightarrow> real list \<Rightarrow> real list" where
  "layernorm_row N x =
     (let n = real (length x);
          mean = sum_list x / n;
          var = (\<Sum>v\<leftarrow>x. (v - mean)\<^sup>2) / n
      in map (\<lambda>i. (x ! i - mean) / sqrt (var + ln_eps N) * ln_weight N i + ln_bias N i)
           [0..<length x])"

definition layernorm2 :: "layernorm \<Rightarrow> tensor2 \<Rightarrow> error + tensor2" where
  "layernorm2 N t =
     (if size1 t = normalized_shape N
      then Inr (t\<lparr>data2 := map (layernorm_row N) (data2 t)\<rparr>)
      else Inl RuntimeError)"

record actor =
  action_size :: nat
  act_features_per_asset :: nat
  use_attention :: bool
  asset_encoder :: asset_encoder
  extra_features :: int
  attention :: "linear option"
  value_proj :: "linear option"
  fc1 :: "linear option"
  fc2 :: "linear option"
  fc3 :: "linear option"
  ln1 :: "layernorm option"
  ln2 :: "layernorm option"
  fc1_units :: nat
  fc2_units :: nat
  layers_initialized :: bool
  effective_encoding_size :: "nat option"
  fc_input_size :: "nat option"

text \<open>What the generator yields for the layers one \<^verbatim>\<open>forward\<close> call may build: the two
  projections (and once more when the fallback rebuilds them) and the trunk.\<close>

record actor_draws =
  d_attention :: draws
  d_value :: draws
  d_attention_retry :: draws
  d_value_retry :: draws
  d_fc1 :: draws
  d_fc2 :: draws
  d_fc3 :: draws

text \<open>\<^verbatim>\<open>EnhancedPortfolioActor.__init__\<close>; the field \<^verbatim>\<open>value\<close> of the source is
  \<^verbatim>\<open>value_proj\<close> here.\<close>

definition EnhancedPortfolioActor_init ::
  "nat \<Rightarrow> nat \<Rightarrow> nat \<Rightarrow> nat \<Rightarrow> nat \<Rightarrow> nat \<Rightarrow> bool \<Rightarrow> nat option \<Rightarrow> draws \<Rightarrow> draws
     \<Rightarrow> error + actor" where
  "EnhancedPortfolioActor_init state_size act_size fpa units1 units2 enc_size use_att enc_out d1 d2 =
     (case AssetEncoder_init fpa enc_size enc_out d1 d2 of Inl e \<Rightarrow> Inl e | Inr enc \<Rightarrow>
        Inr \<lparr>action_size = act_size, act_features_per_asset = fpa, use_attention = use_att,
             asset_encoder = enc,
             extra_features = int state_size - int (fpa * act_size),
             attention = None, value_proj = None, fc1 = None, fc2 = None, fc3 = None,
             ln1 = None, ln2 = None, fc1_units = units1, fc2_units = units2,
             layers_initialized = False, effective_encoding_size = None,
             fc_input_size = None\<rparr>)"

text \<open>\<^verbatim>\<open>reset_parameters\<close>: each layer that exists is refilled, in order; an exception
  leaves the layers before it refilled.\<close>

definition reset_parameters :: "actor \<Rightarrow> actor_draws \<Rightarrow> (error + unit) \<times> actor" where
  "reset_parameters self0 w =
     on_ok (case fc1 self0 of None \<Rightarrow> Inr None | Some L \<Rightarrow> map_sum id Some (reset_hidden (d_fc1 w) L))
       self0 (\<lambda>l1.
     let self1 = (case l1 of None \<Rightarrow> self0 | Some L \<Rightarrow> self0\<lparr>fc1 := Some L\<rparr>) in
     on_ok (case fc2 self1 of None \<Rightarrow> Inr None | Some L \<Rightarrow> map_sum id Some (reset_hidden (d_fc2 w) L))
       self1 (\<lambda>l2.
     let self2 = (case l2 of None \<Rightarrow> self1 | Some L \<Rightarrow> self1\<lparr>fc2 := Some L\<rparr>) in
     (Inr (), (case fc3 self2 of None \<Rightarrow> self2
               | Some L \<Rightarrow> self2\<lparr>fc3 := Some (uniform_fill (- (3 / 10000)) (3 / 10000) (d_fc3 w) L)\<rparr>))))"

definition initialize_layers :: "actor \<Rightarrow> actor_draws \<Rightarrow> nat \<Rightarrow> (error + unit) \<times> actor" where
  "initialize_layers self0 w encoded_size =
     (let self =
        self0\<lparr>fc1 := Some (nn_Linear encoded_size (fc1_units self0) (d_fc1 w)),
              ln1 := Some (nn_LayerNorm (fc1_units self0)),
              fc2 := Some (nn_Linear (fc1_units self0) (fc2_units self0) (d_fc2 w)),
              ln2 := Some (nn_LayerNorm (fc2_units self0)),
              fc3 := Some (nn_Linear (fc2_units self0) (action_size self0) (d_fc3 w))\<rparr>
      in case reset_parameters self w of
           (Inl e, self') \<Rightarrow> (Inl e, self')
         | (Inr _, self') \<Rightarrow> (Inr (), self'\<lparr>layers_initialized := True\<rparr>))"

text \<open>\<^verbatim>\<open>initialize_attention_layers\<close>: the bound \<^verbatim>\<open>1.0 / np.sqrt(fan_in)\<close> is infinite for
  width 0, and \<^verbatim>\<open>uniform_\<close> then raises with both projections already replaced.\<close>

definition initialize_attention_layers ::
  "actor \<Rightarrow> draws \<Rightarrow> draws \<Rightarrow> nat \<Rightarrow> (error + unit) \<times> actor" where
  "initialize_attention_layers self0 da dv eff_size =
     (let self = self0\<lparr>attention := Some (nn_Linear eff_size 1 da),
                       value_proj := Some (nn_Linear eff_size eff_size dv)\<rparr>;
          fan_in = eff_size
      in if fan_in = 0 then (Inl RuntimeError, self)
         else let lim = 1 / sqrt (real fan_in) in
           (Inr (),
            self\<lparr>attention := Some (uniform_fill (- lim) lim da (nn_Linear eff_size 1 da)),
                 value_proj := Some (uniform_fill (- lim) lim dv (nn_Linear eff_size eff_size dv)),
                 effective_encoding_size := Some eff_size\<rparr>))"

text \<open>Lines 169-174 of \<^verbatim>\<open>apply_attention\<close>: the slices \<^verbatim>\<open>x[:, -e:]\<close> and \<^verbatim>\<open>x[:, :-e]\<close>
  for \<^verbatim>\<open>e > 0\<close>.\<close>

definition last_columns :: "nat \<Rightarrow> tensor2 \<Rightarrow> tensor2" where
  "last_columns e t =
     \<lparr>size0 = size0 t, size1 = min e (size1 t), stride0 = stride0 t, stride1 = stride1 t, data2 = map (drop (size1 t - e)) (data2 t)\<rparr>"

definition drop_last_columns :: "nat \<Rightarrow> tensor2 \<Rightarrow> tensor2" where
  "drop_last_columns e t =
     \<lparr>size0 = size0 t, size1 = size1 t - e, stride0 = stride0 t, stride1 = stride1 t, data2 = map (take (size1 t - e)) (data2 t)\<rparr>"

definition strip_tail :: "actor \<Rightarrow> tensor2 \<Rightarrow> tensor2 option \<times> tensor2" where
  "strip_tail self encoded_assets =
     (let total_size = size1 encoded_assets in
      if extra_features self > 0 \<and> total_size > action_size self * act_features_per_asset self
      then (Some (last_columns (nat (extra_features self)) encoded_assets),
            drop_last_columns (nat (extra_features self)) encoded_assets)
      else (None, encoded_assets))"

text \<open>Lines 176-184: the width per asset, rounded up, and the zero padding that makes the
  block divisible. \<^verbatim>\<open>%\<close> by an \<^verbatim>\<open>action_size\<close> of 0 raises ZeroDivisionError.\<close>

definition attention_pad :: "actor \<Rightarrow> tensor2 \<Rightarrow> nat \<Rightarrow> error + tensor2 \<times> nat" where
  "attention_pad self encoded_assets batch_size =
     (let total_size = size1 encoded_assets in
      if action_size self = 0 then Inl ZeroDivisionError
      else if total_size mod action_size self = 0
      then Inr (encoded_assets, total_size div action_size self)
      else let eff_size = (total_size + action_size self - 1) div action_size self;
               padding_needed = int eff_size * int (action_size self) - int total_size
           in if padding_needed > 0
              then (case cat1 encoded_assets (zeros batch_size (nat padding_needed)) of
                      Inl e \<Rightarrow> Inl e | Inr padded \<Rightarrow> Inr (padded, eff_size))
              else Inr (encoded_assets, eff_size))"

text \<open>Lines 186-187: the projections are built when one is missing or was built for another
  width.\<close>

definition attention_build :: "actor \<Rightarrow> actor_draws \<Rightarrow> nat \<Rightarrow> (error + unit) \<times> actor" where
  "attention_build self w eff_size =
     (if attention self = None \<or> value_proj self = None
         \<or> effective_encoding_size self \<noteq> Some eff_size
      then initialize_attention_layers self (d_attention w) (d_value w) eff_size
      else (Inr (), self))"

text \<open>Lines 189-196: the reshape and its \<^verbatim>\<open>except RuntimeError\<close> fallback, which rebuilds
  the projections for the width recomputed from the element count.\<close>

definition attention_reshape ::
  "actor \<Rightarrow> actor_draws \<Rightarrow> tensor2 \<Rightarrow> nat \<Rightarrow> nat \<Rightarrow> (error + tensor3 \<times> nat) \<times> actor" where
  "attention_reshape self w encoded_assets batch_size eff_size =
     (case view3 encoded_assets batch_size (action_size self) eff_size of
        Inr a \<Rightarrow> (Inr (a, eff_size), self)
      | Inl e \<Rightarrow>
          if e \<noteq> RuntimeError then (Inl e, self)
          else let total_elements = numel2 encoded_assets in
            if batch_size * action_size self = 0 then (Inl ZeroDivisionError, self)
            else let safe_encoding_size = total_elements div (batch_size * action_size self) in
              case initialize_attention_layers self (d_attention_retry w) (d_value_retry w)
                     safe_encoding_size of
                (Inl e', self') \<Rightarrow> (Inl e', self')
              | (Inr _, self') \<Rightarrow>
                  (case view3 encoded_assets batch_size (action_size self') safe_encoding_size of
                     Inl e' \<Rightarrow> (Inl e', self')
                   | Inr a \<Rightarrow> (Inr (a, safe_encoding_size), self')))"

text \<open>\<^verbatim>\<open>F.softmax\<close> along one axis, and the sum over the asset axis of a per-batch block
  of \<^verbatim>\<open>width\<close> columns.\<close>

definition softmax :: "real list \<Rightarrow> real list" where
  "softmax xs = map (\<lambda>x. exp x / (\<Sum>y\<leftarrow>xs. exp y)) xs"

definition sum_dim1 :: "nat \<Rightarrow> real list list \<Rightarrow> real list" where
  "sum_dim1 width rows = map (\<lambda>k. \<Sum>r\<leftarrow>rows. r ! k) [0..<width]"

text \<open>\<^verbatim>\<open>squeeze(-1)\<close> removes the last dimension when it has size 1. The score projection
  is only ever built with one output; for another width the later product of weights and
  values is outside what the source does, and the model raises.\<close>

definition squeeze_last :: "tensor3 \<Rightarrow> error + tensor2" where
  "squeeze_last t =
     (if dim2 t = 1
      then Inr \<lparr>size0 = dim0 t, size1 = dim1 t, stride0 = max 1 (dim1 t), stride1 = 1, data2 = map (map hd) (data3 t)\<rparr>
      else Inl RuntimeError)"

text \<open>Lines 198-205, with the intermediate tensors kept: scores, softmax weights over the
  asset axis, values, context, and the flattened concatenation of every asset with the
  context.\<close>

record attention_trace =
  tr_assets :: tensor3
  tr_weights :: tensor2
  tr_values :: tensor3
  tr_context :: tensor2
  tr_flattened :: tensor2

definition attention_mix :: "actor \<Rightarrow> tensor3 \<Rightarrow> nat \<Rightarrow> error + attention_trace" where
  "attention_mix self assets batch_size =
     (case attention self of None \<Rightarrow> Inl TypeError | Some att \<Rightarrow>
      case linear3 att assets of Inl e \<Rightarrow> Inl e | Inr sc3 \<Rightarrow>
      case squeeze_last sc3 of Inl e \<Rightarrow> Inl e | Inr attention_scores \<Rightarrow>
      let attention_weights = attention_scores\<lparr>data2 := map softmax (data2 attention_scores)\<rparr> in
      case value_proj self of None \<Rightarrow> Inl TypeError | Some val \<Rightarrow>
      case linear3 val assets of Inl e \<Rightarrow> Inl e | Inr vals \<Rightarrow>
      let context =
            \<lparr>size0 = dim0 vals, size1 = dim2 vals, stride0 = max 1 (dim2 vals), stride1 = 1,
             data2 = map2 (\<lambda>ws vs. sum_dim1 (dim2 vals) (map2 (\<lambda>wt v. map ((*) wt) v) ws vs))
                       (data2 attention_weights) (data3 vals)\<rparr>;
          enhanced_assets =
            \<lparr>dim0 = dim0 assets, dim1 = dim1 assets, dim2 = dim2 assets + size1 context,
             data3 = map2 (\<lambda>as c. map (\<lambda>a. a @ c) as) (data3 assets) (data2 context)\<rparr>;
          enhanced_size = dim2 enhanced_assets * action_size self
      in case view2 enhanced_assets batch_size enhanced_size of Inl e \<Rightarrow> Inl e
         | Inr flat \<Rightarrow>
             Inr \<lparr>tr_assets = assets, tr_weights = attention_weights, tr_values = vals,
                  tr_context = context, tr_flattened = flat\<rparr>)"

text \<open>\<^verbatim>\<open>apply_attention\<close> up to line 205, and the whole method.\<close>

definition attention_run ::
  "actor \<Rightarrow> actor_draws \<Rightarrow> tensor2 \<Rightarrow> nat
     \<Rightarrow> (error + attention_trace \<times> tensor2 option) \<times> actor" where
  "attention_run self w encoded_assets0 batch_size =
     (case strip_tail self encoded_assets0 of (extra, encoded_assets1) \<Rightarrow>
      on_ok (attention_pad self encoded_assets1 batch_size) self (\<lambda>(encoded_assets, eff_size).
      case attention_build self w eff_size of
        (Inl e, self1) \<Rightarrow> (Inl e, self1)
      | (Inr _, self1) \<Rightarrow>
      case attention_reshape self1 w encoded_assets batch_size eff_size of
        (Inl e, self2) \<Rightarrow> (Inl e, self2)
      | (Inr (assets, _), self2) \<Rightarrow>
          on_ok (attention_mix self2 assets batch_size) self2 (\<lambda>tr. (Inr (tr, extra), self2))))"

definition apply_attention ::
  "actor \<Rightarrow> actor_draws \<Rightarrow> tensor2 \<Rightarrow> nat \<Rightarrow> (error + tensor2) \<times> actor" where
  "apply_attention self w encoded_assets batch_size =
     (case attention_run self w encoded_assets batch_size of
        (Inl e, self') \<Rightarrow> (Inl e, self')
      | (Inr (tr, extra), self') \<Rightarrow>
          (case extra of
             Some ex \<Rightarrow> (cat1 (tr_flattened tr) ex, self')
           | None \<Rightarrow> (Inr (tr_flattened tr), self')))"

text \<open>Lines 211-214 of \<^verbatim>\<open>forward\<close>: the encoder and, if enabled, the attention step.\<close>

definition encode_state :: "actor \<Rightarrow> actor_draws \<Rightarrow> tensor2 \<Rightarrow> (error + tensor2) \<times> actor" where
  "encode_state self0 w state =
     (let batch_size = size0 state in
      case AssetEncoder_forward (asset_encoder self0) state (action_size self0) of
        (r, enc) \<Rightarrow>
          let self = self0\<lparr>asset_encoder := enc\<rparr> in
          on_ok r self (\<lambda>encoded_state.
            if use_attention self then apply_attention self w encoded_state batch_size
            else (Inr encoded_state, self)))"

text \<open>Lines 215-216: \<^verbatim>\<open>not layers_initialized or fc1.weight.shape[1] != width\<close>; the second
  operand is read only when the first is false, and reading it from a missing layer raises
  AttributeError.\<close>

definition trunk_stale :: "actor \<Rightarrow> nat \<Rightarrow> error + bool" where
  "trunk_stale self width =
     (if \<not> layers_initialized self then Inr True
      else case fc1 self of None \<Rightarrow> Inl AttributeError
           | Some L \<Rightarrow> Inr (in_features L \<noteq> width))"

definition ensure_trunk :: "actor \<Rightarrow> actor_draws \<Rightarrow> nat \<Rightarrow> (error + unit) \<times> actor" where
  "ensure_trunk self w width =
     on_ok (trunk_stale self width) self (\<lambda>stale.
       if stale then initialize_layers self w width else (Inr (), self))"

text \<open>Lines 217-219: the trunk. Calling a layer that is \<^verbatim>\<open>None\<close> raises TypeError.\<close>

definition trunk_forward :: "actor \<Rightarrow> tensor2 \<Rightarrow> error + tensor2" where
  "trunk_forward self encoded_state =
     (case fc1 self of None \<Rightarrow> Inl TypeError | Some l1 \<Rightarrow>
      case linear2 l1 encoded_state of Inl e \<Rightarrow> Inl e | Inr h1 \<Rightarrow>
      case ln1 self of None \<Rightarrow> Inl TypeError | Some n1 \<Rightarrow>
      case layernorm2 n1 h1 of Inl e \<Rightarrow> Inl e | Inr g1 \<Rightarrow>
      case fc2 self of None \<Rightarrow> Inl TypeError | Some l2 \<Rightarrow>
      case linear2 l2 (relu2 g1) of Inl e \<Rightarrow> Inl e | Inr h2 \<Rightarrow>
      case ln2 self of None \<Rightarrow> Inl TypeError | Some n2 \<Rightarrow>
      case layernorm2 n2 h2 of Inl e \<Rightarrow> Inl e | Inr g2 \<Rightarrow>
      case fc3 self of None \<Rightarrow> Inl TypeError | Some l3 \<Rightarrow>
      linear2 l3 (relu2 g2))"

definition EnhancedPortfolioActor_forward ::
  "actor \<Rightarrow> actor_draws \<Rightarrow> tensor2 \<Rightarrow> (error + tensor2) \<times> actor" where
  "EnhancedPortfolioActor_forward self0 w state =
     (case encode_state self0 w state of
        (Inl e, self1) \<Rightarrow> (Inl e, self1)
      | (Inr encoded_state, self1) \<Rightarrow>
          (case ensure_trunk self1 w (size1 encoded_state) of
             (Inl e, self2) \<Rightarrow> (Inl e, self2)
           | (Inr _, self2) \<Rightarrow> (trunk_forward self2 encoded_state, self2)))"

section \<open>PortfolioCritic\<close>

text \<open>
  The topology is fixed at construction. \<^verbatim>\<open>nn.BatchNorm1d\<close> keeps running statistics and
  depends on the training mode; the critic takes the library layer as a parameter
  \<^verbatim>\<open>bn\<close>, a step on the layer's own state, and the results hold for any such layer.
\<close>

record 'bn critic =
  use_batch_norm :: bool
  fcs1 :: linear
  crit_fc2 :: linear
  crit_fc3 :: linear
  fc4 :: linear
  bn1 :: 'bn
  bn2 :: 'bn
  bn3 :: 'bn

definition critic_hidden ::
  "('bn \<Rightarrow> tensor2 \<Rightarrow> (error + tensor2) \<times> 'bn) \<Rightarrow> bool \<Rightarrow> linear \<Rightarrow> 'bn \<Rightarrow> tensor2
     \<Rightarrow> (error + tensor2) \<times> 'bn" where
  "critic_hidden bn use_bn L b x =
     (case linear2 L x of Inl e \<Rightarrow> (Inl e, b)
      | Inr h \<Rightarrow>
          if use_bn
          then (case bn b h of (Inl e, b') \<Rightarrow> (Inl e, b') | (Inr n, b') \<Rightarrow> (Inr (relu2 n), b'))
          else (Inr (relu2 h), b))"

definition PortfolioCritic_forward ::
  "('bn \<Rightarrow> tensor2 \<Rightarrow> (error + tensor2) \<times> 'bn) \<Rightarrow> 'bn critic \<Rightarrow> tensor2 \<Rightarrow> tensor2
     \<Rightarrow> (error + tensor2) \<times> 'bn critic" where
  "PortfolioCritic_forward bn self state action =
     on_ok (cat1 state action) self (\<lambda>x.
       case critic_hidden bn (use_batch_norm self) (fcs1 self) (bn1 self) x of
         (r1, b1) \<Rightarrow> let self1 = self\<lparr>bn1 := b1\<rparr> in on_ok r1 self1 (\<lambda>x1.
       case critic_hidden bn (use_batch_norm self) (crit_fc2 self) (bn2 self) x1 of
         (r2, b2) \<Rightarrow> let self2 = self1\<lparr>bn2 := b2\<rparr> in on_ok r2 self2 (\<lambda>x2.
       case critic_hidden bn (use_batch_norm self) (crit_fc3 self) (bn3 self) x2 of
         (r3, b3) \<Rightarrow> let self3 = self2\<lparr>bn3 := b3\<rparr> in on_ok r3 self3 (\<lambda>x3.
       (linear2 (fc4 self) x3, self3)))))"

section \<open>Notions used in the statements\<close>



text \<open>The projections fit the width they were built for: what \<^verbatim>\<open>initialize_attention_layers\<close>
  establishes when it returns.\<close>

definition attention_fits :: "actor \<Rightarrow> bool" where
  "attention_fits self =
     (case (attention self, value_proj self, effective_encoding_size self) of
        (Some L, Some V, Some k) \<Rightarrow>
          in_features L = k \<and> out_features L = 1 \<and> in_features V = k \<and> out_features V = k
      | _ \<Rightarrow> True)"

text \<open>The context of one batch element: the softmax of the scores of its assets weighs the
  value projections of the same assets, summed over the assets.\<close>

definition context_row :: "linear \<Rightarrow> linear \<Rightarrow> real list list \<Rightarrow> real list" where
  "context_row att val m =
     sum_dim1 (out_features val)
       (map2 (\<lambda>wt v. map ((*) wt) v) (softmax (map (\<lambda>x. hd (linear_row att x)) m))
          (map (linear_row val) m))"

text \<open>The five trunk layers, the flag and sizes the rebuild reads, and the input width the
  trunk was last built for, if it was built.\<close>

definition trunk_layers ::
  "actor \<Rightarrow> linear option \<times> layernorm option \<times> linear option \<times> layernorm option \<times> linear option" where
  "trunk_layers self = (fc1 self, ln1 self, fc2 self, ln2 self, fc3 self)"

definition trunk_config :: "actor \<Rightarrow> bool \<times> nat \<times> nat \<times> nat" where
  "trunk_config self = (layers_initialized self, fc1_units self, fc2_units self, action_size self)"

definition built_width :: "actor \<Rightarrow> nat option" where
  "built_width self = (if layers_initialized self then map_option in_features (fc1 self) else None)"

text \<open>A layer as \<^verbatim>\<open>nn.Linear\<close> followed by \<^verbatim>\<open>uniform_(-bnd, bnd)\<close> and a zero bias leaves it, and
  the trunk as \<^verbatim>\<open>initialize_layers\<close> leaves it: functions of the draws and the sizes.\<close>

definition fresh_linear :: "real \<Rightarrow> draws \<Rightarrow> nat \<Rightarrow> nat \<Rightarrow> linear" where
  "fresh_linear bnd d i n = uniform_fill (- bnd) bnd d (nn_Linear i n d)"

definition fresh_trunk ::
  "actor_draws \<Rightarrow> nat \<Rightarrow> nat \<Rightarrow> nat \<Rightarrow> nat
     \<Rightarrow> linear option \<times> layernorm option \<times> linear option \<times> layernorm option \<times> linear option" where
  "fresh_trunk w width units1 units2 n_actions =
     (Some (fresh_linear (1 / sqrt (real width)) (d_fc1 w) width units1),
      Some (nn_LayerNorm units1),
      Some (fresh_linear (1 / sqrt (real units1)) (d_fc2 w) units1 units2),
      Some (nn_LayerNorm units2),
      Some (fresh_linear (3 / 10000) (d_fc3 w) units2 n_actions))"

text \<open>Raw draws in [0, 1), and weights in [-bnd, bnd) with a zero bias.\<close>

definition unit_draws :: "draws \<Rightarrow> bool" where
  "unit_draws d \<longleftrightarrow> (\<forall>r c. 0 \<le> uniform01 d r c \<and> uniform01 d r c < 1)"

definition weights_within :: "real \<Rightarrow> linear \<Rightarrow> bool" where
  "weights_within bnd L \<longleftrightarrow>
     (\<forall>r c. - bnd \<le> weight L r c \<and> weight L r c < bnd) \<and> (\<forall>i. bias L i = 0)"

section \<open>Example networks and batches\<close>

text \<open>Generator draws that sit in the middle of every interval, so every weight drawn
  from a symmetric interval is 0; the layers, the encoder, the actors and the critic that
  the constructors build from them (three assets, four features per asset, hidden sizes
  2 and 2; \<^verbatim>\<open>plain_actor\<close> without the attention step).\<close>

definition half_draws :: draws where
  "half_draws = \<lparr>default_weight = (\<lambda>_ _. 0), default_bias = (\<lambda>_. 0), uniform01 = (\<lambda>_ _. 1 / 2)\<rparr>"

definition half_actor_draws :: actor_draws where
  "half_actor_draws =
     \<lparr>d_attention = half_draws, d_value = half_draws, d_attention_retry = half_draws,
      d_value_retry = half_draws, d_fc1 = half_draws, d_fc2 = half_draws, d_fc3 = half_draws\<rparr>"

definition zero_linear :: "nat \<Rightarrow> nat \<Rightarrow> linear" where
  "zero_linear i n = \<lparr>in_features = i, out_features = n, weight = (\<lambda>_ _. 0), bias = (\<lambda>_. 0)\<rparr>"

definition example_encoder :: "nat \<Rightarrow> nat \<Rightarrow> asset_encoder" where
  "example_encoder fpa out =
     \<lparr>features_per_asset = fpa, encoding_size = out, output_size = out,
      enc_fc1 = zero_linear fpa 32, enc_fc2 = zero_linear 32 out, first_forward_done = False\<rparr>"

definition example_actor :: "nat \<Rightarrow> nat \<Rightarrow> actor" where
  "example_actor state_size out =
     \<lparr>action_size = 3, act_features_per_asset = 4, use_attention = True,
      asset_encoder = example_encoder 4 out,
      extra_features = int state_size - 12,
      attention = None, value_proj = None, fc1 = None, fc2 = None, fc3 = None,
      ln1 = None, ln2 = None, fc1_units = 2, fc2_units = 2,
      layers_initialized = False, effective_encoding_size = None, fc_input_size = None\<rparr>"

definition plain_actor :: actor where
  "plain_actor = example_actor 14 4\<lparr>use_attention := False\<rparr>"

definition example_critic :: "unit critic" where
  "example_critic =
     \<lparr>use_batch_norm = False, fcs1 = zero_linear 17 2, crit_fc2 = zero_linear 2 2,
      crit_fc3 = zero_linear 2 2, fc4 = zero_linear 2 1, bn1 = (), bn2 = (), bn3 = ()\<rparr>"


definition observation_14 :: tensor2 where
  "observation_14 = \<lparr>size0 = 1, size1 = 14, stride0 = 14, stride1 = 1, data2 = [[1, 2, 3, 4, 5, 6, 7, 8, 9, 10, 11, 12, 13, 14]]\<rparr>"

text \<open>Encoded batches: what the encoder returns on \<^verbatim>\<open>observation_14\<close> with output size 3,
  a batch with a tail behind twelve columns, a batch of three chunks of four and the same
  with the first two chunks exchanged, and what the attention step returns on the first.\<close>

definition encoded_11 :: tensor2 where
  "encoded_11 = \<lparr>size0 = 1, size1 = 11, stride0 = 11, stride1 = 1, data2 = [[0, 0, 0, 0, 0, 0, 0, 0, 0, 13, 14]]\<rparr>"

definition encoded_14 :: tensor2 where
  "encoded_14 = \<lparr>size0 = 1, size1 = 14, stride0 = 14, stride1 = 1, data2 = [[0, 0, 0, 0, 0, 0, 0, 0, 0, 0, 0, 0, 13, 14]]\<rparr>"

definition encoded_12 :: tensor2 where
  "encoded_12 = \<lparr>size0 = 1, size1 = 12, stride0 = 12, stride1 = 1, data2 = [[1, 2, 3, 4, 5, 6, 7, 8, 9, 10, 11, 12]]\<rparr>"

definition encoded_12_swapped :: tensor2 where
  "encoded_12_swapped = \<lparr>size0 = 1, size1 = 12, stride0 = 12, stride1 = 1, data2 = [[5, 6, 7, 8, 1, 2, 3, 4, 9, 10, 11, 12]]\<rparr>"

definition flattened_24 :: tensor2 where
  "flattened_24 = \<lparr>size0 = 1, size1 = 24, stride0 = 24, stride1 = 1,
     data2 = [[0, 0, 0, 0, 0, 0, 0, 0, 0, 0, 0, 0, 0, 0, 0, 0, 0, 13, 14, 0, 0, 0, 0, 0]]\<rparr>"

text \<open>A contiguous batch of two rows of width 12.\<close>

definition two_rows_12 :: tensor2 where
  "two_rows_12 = \<lparr>size0 = 2, size1 = 12, stride0 = 12, stride1 = 1,
     data2 = [[1, 2, 3, 4, 5, 6, 7, 8, 9, 10, 11, 12],
              [13, 14, 15, 16, 17, 18, 19, 20, 21, 22, 23, 24]]\<rparr>"

definition batch_1_12_2 :: tensor where
  "batch_1_12_2 =
     \<lparr>shape = [1, 12, 2], strides = [24, 2, 1], dtype = Float32,
      elems = [1, 2, 3, 4, 5, 6, 7, 8, 9, 10, 11, 12,
               13, 14, 15, 16, 17, 18, 19, 20, 21, 22, 23, 24]\<rparr>"

section \<open>Shapes in the encoder\<close>

lemma consume_all:
  assumes "v * prod_list ds = T" and "0 < T"
  shows "\<exists>acc'. consume T base v ds acc = Some ([], acc')"
  using assms
proof (induction ds arbitrary: v acc)
  case Nil
  then show ?case by simp
next
  case (Cons d ds)
  have vpos: "0 < v" and dpos: "0 < d" and ppos: "0 < prod_list ds"
    using Cons.prems by (auto intro: Nat.gr0I)
  show ?case
  proof (cases "v < T \<or> d = 1")
    case True
    then show ?thesis using Cons.IH[of "v * d" "(v * base) # acc"] Cons.prems
      by (simp add: mult.assoc)
  next
    case False
    then have "2 \<le> d" using dpos by simp
    moreover have "1 \<le> prod_list ds" using ppos by simp
    ultimately have "2 * 1 \<le> d * prod_list ds" by (rule mult_le_mono)
    then have "v * (2 * 1) \<le> v * (d * prod_list ds)" by (rule mult_le_mono2)
    also have "\<dots> = T" using Cons.prems(1) by (simp add: mult.assoc)
    finally have "v < T" using vpos by simp
    then show ?thesis using False by simp
  qed
qed

lemma consume_split:
  assumes "k * n = W" and "0 < W" and "B \<noteq> 1"
  shows "\<exists>acc'. consume W base 1 [k, n, B] acc = Some ([B], acc')"
proof -
  have kpos: "0 < k" and npos: "0 < n" using assms(1,2) by (auto intro: Nat.gr0I)
  have "k * 1 \<le> k * n" using npos by (intro mult_le_mono2) simp
  then have kle: "k \<le> W" using assms(1) by simp
  show ?thesis
  proof (cases "W = 1")
    case True
    then have "k = 1" "n = 1" using assms(1) by simp_all
    then show ?thesis using True assms(3) by simp
  next
    case False
    then have W1: "1 < W" using assms(2) by simp
    show ?thesis
    proof (cases "k < W")
      case True
      then show ?thesis using W1 assms by simp
    next
      case False
      then have "k = W" using kle by simp
      then have "n = 1" using assms(1,2) by simp
      then show ?thesis using W1 \<open>k = W\<close> assms(3) by simp
    qed
  qed
qed

lemma view_split_last:
  assumes "n * k = W"
  shows "\<exists>st. computeStride [B, W] [s0, s1] [B, n, k] = Some st"
proof (cases "B * W = 0")
  case True
  then show ?thesis by (simp add: computeStride_def)
next
  case False
  then have B: "0 < B" and W: "0 < W" by simp_all
  have kn: "k * n = W" using assms by (simp add: mult.commute)
  show ?thesis
  proof (cases "B \<noteq> 1 \<and> s0 \<noteq> W * s1")
    case True
    from consume_split[OF kn W, of B s1 "[]"] True obtain acc' where
      c1: "consume W s1 1 [k, n, B] [] = Some ([B], acc')" by blast
    from consume_all[of 1 "[B]" B s0 acc'] B obtain acc2 where
      c2: "consume B s0 1 [B] acc' = Some ([], acc2)" by auto
    have "chunk_walk [(W, s1), (B, s0)] s1 1 [k, n, B] [] = Some acc2"
      using True c1 c2 by (simp del: consume.simps)
    then show ?thesis using False by (simp add: computeStride_def del: chunk_walk.simps)
  next
    case False2: False
    from consume_all[of 1 "[k, n, B]" "W * B" s1 "[]"] kn B W obtain acc1 where
      c: "consume (W * B) s1 1 [k, n, B] [] = Some ([], acc1)" by (auto simp: mult.assoc)
    have "chunk_walk [(W, s1), (B, s0)] s1 1 [k, n, B] [] = Some acc1"
      using False2 c by (auto simp del: consume.simps)
    then show ?thesis using False by (simp add: computeStride_def del: chunk_walk.simps)
  qed
qed

lemma view3_fits:
  assumes "b = size0 t" and "n * k = size1 t"
  shows "view3 t b n k =
           Inr \<lparr>dim0 = b, dim1 = n, dim2 = k,
                data3 = map (chunks n k) (chunks b (n * k) (concat (data2 t)))\<rparr>"
proof -
  from view_split_last[OF assms(2), of "size0 t" "stride0 t" "stride1 t"]
  obtain st where "computeStride [size0 t, size1 t] [stride0 t, stride1 t] [size0 t, n, k] = Some st"
    by blast
  then show ?thesis using assms by (simp add: view3_def numel2_def mult.assoc)
qed


lemma pad_state_ok:
  "pad_state self state n =
     Inr (if size1 state < n * features_per_asset self
          then \<lparr>size0 = size0 state, size1 = n * features_per_asset self, stride0 = max 1 (n * features_per_asset self), stride1 = 1,
                data2 = map2 (@) (data2 state)
                  (replicate (size0 state) (replicate (n * features_per_asset self - size1 state) 0))\<rparr>
          else state)"
  by (simp add: pad_state_def cat1_def zeros_def Let_def)

lemma pad_state_shape:
  assumes "pad_state self state n = Inr s"
  shows "size0 s = size0 state" and "size1 s = max (size1 state) (n * features_per_asset self)"
  using assms by (auto simp: pad_state_ok split: if_splits)

lemma asset_block_shape:
  assumes "pad_state self state n = Inr s"
  shows "size0 (asset_block self s n) = size0 state"
    and "size1 (asset_block self s n) = n * features_per_asset self"
  using pad_state_shape[OF assms] by (simp_all add: asset_block_def narrow_to_def)

lemma encoder_reshape_ok:
  assumes "pad_state self state n = Inr s"
  shows "encoder_reshape self (asset_block self s n) (size0 state) n =
           (Inr \<lparr>dim0 = size0 state, dim1 = n, dim2 = features_per_asset self,
                 data3 = map (chunks n (features_per_asset self))
                   (chunks (size0 state) (n * features_per_asset self)
                     (concat (data2 (asset_block self s n))))\<rparr>, self)"
  using asset_block_shape[OF assms]
    view3_fits[of "size0 state" "asset_block self s n" n "features_per_asset self"]
  by (simp add: encoder_reshape_def mult.commute)

lemma map2_replicate_right:
  "length xs = n \<Longrightarrow> map2 f xs (replicate n z) = map (\<lambda>x. f x z) xs"
  by (induction xs arbitrary: n) auto

lemma AssetEncoder_forward_eq:
  "AssetEncoder_forward self state n =
     (let self1 = self\<lparr>first_forward_done := True\<rparr>;
          s = (if size1 state < n * features_per_asset self
               then \<lparr>size0 = size0 state, size1 = n * features_per_asset self, stride0 = max 1 (n * features_per_asset self), stride1 = 1,
                     data2 = map2 (@) (data2 state)
                       (replicate (size0 state) (replicate (n * features_per_asset self - size1 state) 0))\<rparr>
               else state);
          a = \<lparr>dim0 = size0 state, dim1 = n, dim2 = features_per_asset self,
               data3 = map (chunks n (features_per_asset self))
                 (chunks (size0 state) (n * features_per_asset self)
                   (concat (data2 (asset_block self1 s n))))\<rparr>
      in (encode_assets self1 a (extra_block self1 s n) (size0 state) n, self1))"
proof -
  let ?self1 = "self\<lparr>first_forward_done := True\<rparr>"
  let ?s = "if size1 state < n * features_per_asset self
               then \<lparr>size0 = size0 state, size1 = n * features_per_asset self, stride0 = max 1 (n * features_per_asset self), stride1 = 1,
                     data2 = map2 (@) (data2 state)
                       (replicate (size0 state) (replicate (n * features_per_asset self - size1 state) 0))\<rparr>
               else state"
  have s: "pad_state ?self1 state n = Inr ?s"
    by (simp add: pad_state_ok)
  show ?thesis
    unfolding AssetEncoder_forward_def Let_def s on_ok_def
    using encoder_reshape_ok[OF s] by simp
qed

lemma encode_assets_ok:
  assumes "encoder_wf self" "dim2 a = features_per_asset self" "dim0 a = b" "dim1 a = n"
    and "case ex of None \<Rightarrow> True | Some x \<Rightarrow> size0 x = b"
  shows "\<exists>y. encode_assets self a ex b n = Inr y \<and> size0 y = b \<and>
           size1 y = n * output_size self + (case ex of None \<Rightarrow> 0 | Some x \<Rightarrow> size1 x)"
  using assms
  by (auto simp: encode_assets_def encoder_wf_def linear3_def relu3_def view2_def numel3_def
      cat1_def split: option.splits)


lemma reset_hidden_half:
  "0 < i \<Longrightarrow> reset_hidden half_draws (nn_Linear i n half_draws) = Inr (zero_linear i n)"
  by (simp add: reset_hidden_def hidden_init_def nn_Linear_def uniform_fill_def half_draws_def
      zero_linear_def Let_def)

lemma AssetEncoder_init_example:
  "0 < fpa \<Longrightarrow> 0 < out \<Longrightarrow>
     AssetEncoder_init fpa out None half_draws half_draws = Inr (example_encoder fpa out)"
  by (simp add: AssetEncoder_init_def reset_hidden_half example_encoder_def)

lemma encoder_wf_example: "encoder_wf (example_encoder fpa out)"
  by (simp add: encoder_wf_def example_encoder_def zero_linear_def)

lemma extra_block_size0:
  "case extra_block self s n of None \<Rightarrow> True | Some x \<Rightarrow> size0 x = size0 s"
  by (simp add: extra_block_def narrow_from_def Let_def)

lemma forward_shape:
  assumes "encoder_wf self"
  shows "\<exists>y. AssetEncoder_forward self state n = (Inr y, self\<lparr>first_forward_done := True\<rparr>) \<and>
           size0 y = size0 state \<and>
           size1 y = n * output_size self + (size1 state - n * features_per_asset self)"
proof -
  let ?self1 = "self\<lparr>first_forward_done := True\<rparr>"
  let ?s = "if size1 state < n * features_per_asset self
               then \<lparr>size0 = size0 state, size1 = n * features_per_asset self, stride0 = max 1 (n * features_per_asset self), stride1 = 1,
                     data2 = map2 (@) (data2 state)
                       (replicate (size0 state) (replicate (n * features_per_asset self - size1 state) 0))\<rparr>
               else state"
  let ?a = "\<lparr>dim0 = size0 state, dim1 = n, dim2 = features_per_asset self,
               data3 = map (chunks n (features_per_asset self))
                 (chunks (size0 state) (n * features_per_asset self)
                   (concat (data2 (asset_block ?self1 ?s n))))\<rparr>"
  have wf1: "encoder_wf ?self1" using assms by (simp add: encoder_wf_def)
  have ex0: "case extra_block ?self1 ?s n of None \<Rightarrow> True | Some x \<Rightarrow> size0 x = size0 state"
    using extra_block_size0[where self = ?self1 and s = ?s and n = n] by (auto split: option.splits)
  from encode_assets_ok[OF wf1, of ?a "size0 state" n "extra_block ?self1 ?s n"] ex0
  obtain y where y: "encode_assets ?self1 ?a (extra_block ?self1 ?s n) (size0 state) n = Inr y"
    "size0 y = size0 state"
    "size1 y = n * output_size ?self1 + (case extra_block ?self1 ?s n of None \<Rightarrow> 0 | Some x \<Rightarrow> size1 x)"
    by auto
  have tail: "(case extra_block ?self1 ?s n of None \<Rightarrow> 0 | Some x \<Rightarrow> size1 x)
                = size1 state - n * features_per_asset self"
    by (auto simp: extra_block_def narrow_from_def Let_def)
  show ?thesis
    using y tail by (simp add: AssetEncoder_forward_eq Let_def)
qed

section \<open>The encoder's reshape fallback\<close>



section \<open>Width of the encoder's output\<close>



section \<open>The encoder does not raise\<close>



section \<open>Zero padding\<close>



section \<open>The attention step\<close>

lemma round_up_exact:
  assumes "0 < (n::nat)"
  shows "t \<le> (t + n - 1) div n * n" and "t mod n = 0 \<Longrightarrow> (t + n - 1) div n = t div n"
proof -
  let ?q = "(t + n - 1) div n"
  have "t + n - 1 = ?q * n + (t + n - 1) mod n" by simp
  moreover have "(t + n - 1) mod n < n" using assms by simp
  ultimately show "t \<le> ?q * n" by linarith
next
  assume "t mod n = 0"
  then have "n dvd t" by (simp add: mod_eq_0_iff_dvd)
  then obtain q where q: "t = q * n" by (auto simp: dvd_def mult.commute)
  have "(q * n + (n - 1)) div n = q + (n - 1) div n"
    using assms by (simp only: div_mult_self3[of n q "n - 1"] neq0_conv[symmetric] simp_thms)
  then have "(q * n + (n - 1)) div n = q" using assms by (simp add: div_less)
  moreover have "t + n - 1 = q * n + (n - 1)" using assms q by simp
  ultimately show "(t + n - 1) div n = t div n" using q assms by simp
qed

lemma attention_pad_ok:
  assumes "action_size self \<noteq> 0" and "b = size0 enc"
  shows "\<exists>blk. attention_pad self enc b
             = Inr (blk, (size1 enc + action_size self - 1) div action_size self) \<and>
           size0 blk = size0 enc \<and>
           size1 blk = action_size self * ((size1 enc + action_size self - 1) div action_size self)"
proof -
  let ?n = "action_size self"
  let ?t = "size1 enc"
  let ?q = "(?t + ?n - 1) div ?n"
  have n: "0 < ?n" using assms(1) by simp
  show ?thesis
  proof (cases "?t mod ?n = 0")
    case True
    then have "?q = ?t div ?n" using round_up_exact(2)[OF n] by simp
    moreover have "?n * (?t div ?n) = ?t" using True by (simp add: mod_eq_0_iff_dvd)
    ultimately show ?thesis using True assms(1) by (simp add: attention_pad_def Let_def)
  next
    case False
    have le: "?t \<le> ?q * ?n" using round_up_exact(1)[OF n] .
    have ne: "?t \<noteq> ?q * ?n"
    proof
      assume "?t = ?q * ?n"
      then have "?t mod ?n = (?q * ?n) mod ?n" by simp
      then show False using False by simp
    qed
    have lt: "?t < ?q * ?n" using le ne by simp
    then have pos: "int ?q * int ?n - int ?t > 0"
      by (metis of_nat_less_iff of_nat_mult diff_gt_0_iff_gt)
    have nat_eq: "nat (int ?q * int ?n - int ?t) = ?q * ?n - ?t"
      by (metis nat_int of_nat_mult of_nat_diff le)
    show ?thesis
      using False assms pos nat_eq le
      by (simp add: attention_pad_def Let_def cat1_def zeros_def mult.commute)
  qed
qed

lemma attention_reshape_ok:
  assumes "size1 blk = action_size self * k" and "b = size0 blk"
  shows "attention_reshape self w blk b k =
           (Inr (\<lparr>dim0 = b, dim1 = action_size self, dim2 = k,
                  data3 = map (chunks (action_size self) k)
                    (chunks b (action_size self * k) (concat (data2 blk)))\<rparr>, k), self)"
  using assms view3_fits[of b blk "action_size self" k]
  by (simp add: attention_reshape_def)

lemma softmax_nonneg: "x \<in> set (softmax xs) \<Longrightarrow> 0 \<le> x"
  by (auto simp: softmax_def intro!: divide_nonneg_nonneg sum_list_nonneg)

lemma softmax_sum: "xs \<noteq> [] \<Longrightarrow> sum_list (softmax xs) = 1"
proof -
  assume ne: "xs \<noteq> []"
  let ?Z = "\<Sum>y\<leftarrow>xs. exp y"
  have pos: "0 < ?Z"
    using ne by (cases xs) (auto intro!: add_pos_nonneg sum_list_nonneg)
  have "sum_list (softmax xs) = (\<Sum>x\<leftarrow>xs. exp x * inverse ?Z)"
    by (simp add: softmax_def divide_inverse)
  also have "\<dots> = ?Z * inverse ?Z" by (simp add: sum_list_mult_const)
  finally show ?thesis using pos by simp
qed

lemma initialize_attention_layers_action_size:
  "action_size (snd (initialize_attention_layers self da dv k)) = action_size self"
  by (simp add: initialize_attention_layers_def Let_def)

lemma initialize_attention_layers_action_sizeD:
  "initialize_attention_layers self da dv k = (r, self') \<Longrightarrow> action_size self' = action_size self"
  using initialize_attention_layers_action_size[of self da dv k] by simp

lemma attention_build_action_size:
  "action_size (snd (attention_build self w k)) = action_size self"
  by (simp add: attention_build_def initialize_attention_layers_action_size)

lemma attention_pad_action_size:
  "attention_pad self enc b = Inr r \<Longrightarrow> action_size self \<noteq> 0"
  by (auto simp: attention_pad_def Let_def split: if_splits)

lemma view3_outer:
  assumes "view3 t b n k = Inr a"
  shows "dim0 a = b" "dim1 a = n" "dim2 a = k" "length (data3 a) = b"
    "\<And>m. m \<in> set (data3 a) \<Longrightarrow> length m = n"
  using assms by (auto simp: view3_def chunks_def split: if_splits option.splits)

lemma attention_reshape_outer:
  assumes "attention_reshape self w blk b k = (Inr (a, k'), self')"
  shows "action_size self' = action_size self" "dim0 a = b" "dim1 a = action_size self"
    "dim2 a = k'" "length (data3 a) = b"
    "\<And>m. m \<in> set (data3 a) \<Longrightarrow> length m = action_size self"
proof -
  have "action_size self' = action_size self \<and>
        view3 blk b (action_size self) k' = Inr a"
    using assms
    by (auto simp: attention_reshape_def Let_def
        dest: initialize_attention_layers_action_sizeD
        split: sum.splits if_splits prod.splits)
  then show "action_size self' = action_size self" "dim0 a = b" "dim1 a = action_size self"
    "dim2 a = k'" "length (data3 a) = b"
    "\<And>m. m \<in> set (data3 a) \<Longrightarrow> length m = action_size self"
    using view3_outer[of blk b "action_size self" k' a] by auto
qed

lemma attention_mix_weights:
  assumes "attention_mix self a b = Inr tr"
  shows "\<exists>att. attention self = Some att \<and> tr_assets tr = a \<and>
           size0 (tr_weights tr) = dim0 a \<and> size1 (tr_weights tr) = dim1 a \<and>
           data2 (tr_weights tr) = map (\<lambda>m. softmax (map (\<lambda>x. hd (linear_row att x)) m)) (data3 a)"
  using assms
  by (auto simp: attention_mix_def linear3_def squeeze_last_def Let_def comp_def
      split: option.splits sum.splits if_splits)

lemma attention_run_cases:
  assumes "attention_run self w enc b = (Inr (tr, extra), self')"
  shows "\<exists>blk k self1 a k'.
           extra = fst (strip_tail self enc) \<and>
           attention_pad self (snd (strip_tail self enc)) b = Inr (blk, k) \<and>
           attention_build self w k = (Inr (), self1) \<and>
           attention_reshape self1 w blk b k = (Inr (a, k'), self') \<and>
           attention_mix self' a b = Inr tr"
  using assms
  by (auto simp: attention_run_def on_ok_def split: prod.splits sum.splits)

lemma attention_build_ok:
  assumes "k \<noteq> 0" and "attention_fits self"
  shows "\<exists>self1 L V. attention_build self w k = (Inr (), self1) \<and>
           attention self1 = Some L \<and> in_features L = k \<and> out_features L = 1 \<and>
           value_proj self1 = Some V \<and> in_features V = k \<and> out_features V = k \<and>
           effective_encoding_size self1 = Some k \<and> attention_fits self1 \<and>
           action_size self1 = action_size self \<and> extra_features self1 = extra_features self \<and>
           act_features_per_asset self1 = act_features_per_asset self \<and>
           asset_encoder self1 = asset_encoder self \<and> use_attention self1 = use_attention self \<and>
           fc1 self1 = fc1 self \<and> fc2 self1 = fc2 self \<and> fc3 self1 = fc3 self \<and>
           ln1 self1 = ln1 self \<and> ln2 self1 = ln2 self \<and>
           fc1_units self1 = fc1_units self \<and> fc2_units self1 = fc2_units self \<and>
           layers_initialized self1 = layers_initialized self"
  using assms
  by (auto simp: attention_build_def initialize_attention_layers_def Let_def attention_fits_def
      uniform_fill_def nn_Linear_def split: option.splits)

lemma attention_mix_ok:
  assumes "attention self = Some L" "in_features L = k" "out_features L = 1"
    "value_proj self = Some V" "in_features V = k" "out_features V = k"
    "dim0 a = b" "dim1 a = action_size self" "dim2 a = k"
  shows "\<exists>tr. attention_mix self a b = Inr tr \<and> size0 (tr_flattened tr) = b \<and>
           size1 (tr_flattened tr) = (k + k) * action_size self"
  using assms
  by (simp add: attention_mix_def linear3_def squeeze_last_def Let_def view2_def numel3_def)

lemma attention_run_ok:
  assumes n: "action_size self \<noteq> 0" and b: "b = size0 enc"
    and k: "size1 (snd (strip_tail self enc)) \<noteq> 0" and fits: "attention_fits self"
  shows "\<exists>tr self1. attention_run self w enc b = (Inr (tr, fst (strip_tail self enc)), self1) \<and>
           attention_build self w
             ((size1 (snd (strip_tail self enc)) + action_size self - 1) div action_size self)
             = (Inr (), self1) \<and>
           size0 (tr_flattened tr) = b \<and>
           size1 (tr_flattened tr) =
             2 * ((size1 (snd (strip_tail self enc)) + action_size self - 1) div action_size self)
               * action_size self"
proof -
  obtain extra enc1 where st: "strip_tail self enc = (extra, enc1)" by (cases "strip_tail self enc")
  have b1: "b = size0 enc1"
    using st b by (auto simp: strip_tail_def drop_last_columns_def Let_def split: if_splits)
  let ?k = "(size1 enc1 + action_size self - 1) div action_size self"
  from attention_pad_ok[OF n b1]
  obtain blk where blk: "attention_pad self enc1 b = Inr (blk, ?k)" "size0 blk = size0 enc1"
    "size1 blk = action_size self * ?k" by blast
  have kpos: "?k \<noteq> 0"
  proof
    assume "?k = 0"
    then have "size1 enc1 + action_size self - 1 < action_size self"
      using n by (simp add: div_eq_0_iff)
    then show False using k st by simp
  qed
  from attention_build_ok[OF kpos fits, of w]
  obtain self1 L V where s1: "attention_build self w ?k = (Inr (), self1)"
    "attention self1 = Some L" "in_features L = ?k" "out_features L = 1"
    "value_proj self1 = Some V" "in_features V = ?k" "out_features V = ?k"
    "action_size self1 = action_size self" by blast
  have rs: "attention_reshape self1 w blk b ?k =
           (Inr (\<lparr>dim0 = b, dim1 = action_size self1, dim2 = ?k,
                  data3 = map (chunks (action_size self1) ?k)
                    (chunks b (action_size self1 * ?k) (concat (data2 blk)))\<rparr>, ?k), self1)"
    using attention_reshape_ok[of blk self1 ?k b w] blk b1 s1(8) by simp
  let ?a = "\<lparr>dim0 = b, dim1 = action_size self1, dim2 = ?k,
                  data3 = map (chunks (action_size self1) ?k)
                    (chunks b (action_size self1 * ?k) (concat (data2 blk)))\<rparr>"
  from attention_mix_ok[OF s1(2-7), of ?a b]
  obtain tr where tr: "attention_mix self1 ?a b = Inr tr" "size0 (tr_flattened tr) = b"
    "size1 (tr_flattened tr) = (?k + ?k) * action_size self1" by auto
  have "attention_run self w enc b = (Inr (tr, extra), self1)"
    using st blk(1) s1(1) rs tr(1) by (simp add: attention_run_def on_ok_def)
  then show ?thesis using st s1(1,8) tr(2,3) by (simp add: mult_2)
qed

lemma EnhancedPortfolioActor_init_example:
  "0 < out \<Longrightarrow>
     EnhancedPortfolioActor_init state_size 3 4 2 2 out True None half_draws half_draws
       = Inr (example_actor state_size out)"
  by (simp add: EnhancedPortfolioActor_init_def AssetEncoder_init_example example_actor_def)

lemma attention_run_state:
  "snd (attention_run self w enc b) =
     (case attention_pad self (snd (strip_tail self enc)) b of
        Inl e \<Rightarrow> self
      | Inr (blk, k) \<Rightarrow>
          (case attention_build self w k of
             (Inl e, self1) \<Rightarrow> self1
           | (Inr u, self1) \<Rightarrow> snd (attention_reshape self1 w blk b k)))"
  by (auto simp: attention_run_def on_ok_def split: prod.splits sum.splits)

text \<open>
  Claim C5. Whenever the attention step of \<^verbatim>\<open>apply_attention\<close> (everything before the
  tail is put back) returns, the attention weights it computed form one row per batch
  element with one weight per asset, every weight is non-negative, and every row sums
  to 1. (The sum is taken over the reals.)
\<close>

theorem attention_weights_convex:
  assumes "attention_run self w encoded_assets batch_size = (Inr (tr, extra), self')"
  shows "size0 (tr_weights tr) = batch_size \<and> size1 (tr_weights tr) = action_size self \<and>
         length (data2 (tr_weights tr)) = batch_size \<and>
         (\<forall>ws \<in> set (data2 (tr_weights tr)).
            length ws = action_size self \<and> (\<forall>x \<in> set ws. 0 \<le> x) \<and> sum_list ws = 1)"
proof -
  from attention_run_cases[OF assms]
  obtain blk k self1 a k' where
    pad: "attention_pad self (snd (strip_tail self encoded_assets)) batch_size = Inr (blk, k)" and
    bld: "attention_build self w k = (Inr (), self1)" and
    rs: "attention_reshape self1 w blk batch_size k = (Inr (a, k'), self')" and
    mix: "attention_mix self' a batch_size = Inr tr"
    by blast
  have n: "action_size self \<noteq> 0" using attention_pad_action_size[OF pad] .
  have n1: "action_size self1 = action_size self"
    using attention_build_action_size[of self w k] bld by simp
  note o = attention_reshape_outer[OF rs]
  from attention_mix_weights[OF mix]
  obtain att where w: "size0 (tr_weights tr) = dim0 a" "size1 (tr_weights tr) = dim1 a"
    "data2 (tr_weights tr) = map (\<lambda>m. softmax (map (\<lambda>x. hd (linear_row att x)) m)) (data3 a)"
    by blast
  have rows: "length ws = action_size self \<and> (\<forall>x \<in> set ws. 0 \<le> x) \<and> sum_list ws = 1"
    if "ws \<in> set (data2 (tr_weights tr))" for ws
  proof -
    from that w(3) obtain m where m: "m \<in> set (data3 a)"
      "ws = softmax (map (\<lambda>x. hd (linear_row att x)) m)" by auto
    have len: "length m = action_size self" using o(6)[OF m(1)] n1 by simp
    then have ne: "map (\<lambda>x. hd (linear_row att x)) m \<noteq> []" using n by auto
    have "length ws = action_size self" using m(2) len by (simp add: softmax_def)
    moreover have "\<forall>x \<in> set ws. 0 \<le> x" using softmax_nonneg m(2) by blast
    moreover have "sum_list ws = 1" using softmax_sum[OF ne] m(2) by simp
    ultimately show ?thesis by blast
  qed
  show ?thesis using w o(2,3,5) n1 rows by simp
qed

theorem attention_weights_convex_witness:
  "\<exists>tr extra self'.
     attention_run (example_actor 14 4) half_actor_draws encoded_14 1 = (Inr (tr, extra), self') \<and>
     length (data2 (tr_weights tr)) = 1 \<and>
     (\<forall>ws \<in> set (data2 (tr_weights tr)).
        length ws = 3 \<and> (\<forall>x \<in> set ws. 0 \<le> x) \<and> sum_list ws = 1)"
proof -
  have st: "strip_tail (example_actor 14 4) encoded_14
              = (Some (last_columns 2 encoded_14), drop_last_columns 2 encoded_14)"
    by (simp add: strip_tail_def example_actor_def encoded_14_def Let_def)
  have h1: "action_size (example_actor 14 4) \<noteq> 0" by (simp add: example_actor_def)
  have h2: "(1::nat) = size0 encoded_14" by (simp add: encoded_14_def)
  have h3: "size1 (snd (strip_tail (example_actor 14 4) encoded_14)) \<noteq> 0"
    by (simp only: st snd_conv) (simp add: drop_last_columns_def encoded_14_def)
  have h4: "attention_fits (example_actor 14 4)"
    by (simp add: attention_fits_def example_actor_def)
  from attention_run_ok[OF h1 h2 h3 h4, of half_actor_draws]
  obtain tr self1 where run:
    "attention_run (example_actor 14 4) half_actor_draws encoded_14 1
       = (Inr (tr, fst (strip_tail (example_actor 14 4) encoded_14)), self1)" by blast
  have n: "action_size (example_actor 14 4) = 3" by (simp add: example_actor_def)
  show ?thesis
    using attention_weights_convex[OF run] run n by auto
qed

section \<open>The critic\<close>

text \<open>
  Claim C9. With a state batch and an action batch of different batch sizes, the
  concatenation along dimension 1 raises, and \<^verbatim>\<open>PortfolioCritic.forward\<close> ends with that
  RuntimeError and an unchanged critic, for either setting of \<^verbatim>\<open>use_batch_norm\<close>.
\<close>

theorem critic_rejects_batch_mismatch:
  assumes "size0 state \<noteq> size0 action"
  shows "cat1 state action = Inl RuntimeError \<and>
         PortfolioCritic_forward bn self state action = (Inl RuntimeError, self)"
  using assms by (simp add: PortfolioCritic_forward_def cat1_def on_ok_def)

theorem critic_rejects_batch_mismatch_witness:
  "size0 (zeros 2 14) \<noteq> size0 (zeros 1 3) \<and>
   PortfolioCritic_forward (\<lambda>b x. (Inr x, b)) example_critic (zeros 2 14) (zeros 1 3)
     = (Inl RuntimeError, example_critic)"
proof -
  have ne: "size0 (zeros 2 14) \<noteq> size0 (zeros 1 3)" by (simp add: zeros_def)
  show ?thesis
    using critic_rejects_batch_mismatch[OF ne, of "\<lambda>b x. (Inr x, b)" example_critic] ne by simp
qed

section \<open>The cross-asset context\<close>

lemma chunks_Suc: "chunks (Suc b) m xs = take m xs # chunks b m (drop m xs)"
proof -
  have "[0..<Suc b] = 0 # map Suc [0..<b]"
    by (simp add: upt_conv_Cons map_Suc_upt del: upt_Suc)
  then show ?thesis
    by (simp add: chunks_def comp_def add.commute del: upt_Suc)
qed

lemma chunks_concat:
  "list_all (\<lambda>r. length r = m) rows \<Longrightarrow> chunks (length rows) m (concat rows) = rows"
  by (induction rows) (simp_all add: chunks_Suc, simp add: chunks_def)

lemma view3_rows:
  assumes "tensor2_wf t" and "size1 t = n * k" and "b = size0 t"
  shows "map (chunks n k) (chunks b (n * k) (concat (data2 t))) = map (chunks n k) (data2 t)"
  using assms chunks_concat[of "n * k" "data2 t"] by (simp add: tensor2_wf_def)

lemma map2_same: "map2 f (map g xs) (map h xs) = map (\<lambda>x. f (g x) (h x)) xs"
  by (induction xs) auto

lemma sum_list_mset_cong:
  fixes f :: "'a \<Rightarrow> real"
  assumes "mset xs = mset ys"
  shows "sum_list (map f xs) = sum_list (map f ys)"
proof -
  have "sum_list (map f xs) = sum_mset (image_mset f (mset xs))"
    by (metis mset_map sum_mset_sum_list)
  also have "\<dots> = sum_mset (image_mset f (mset ys))" using assms by simp
  also have "\<dots> = sum_list (map f ys)" by (metis mset_map sum_mset_sum_list)
  finally show ?thesis .
qed

lemma context_row_eq:
  "context_row att val m =
     map (\<lambda>j. \<Sum>x\<leftarrow>m. (exp (hd (linear_row att x)) / (\<Sum>y\<leftarrow>m. exp (hd (linear_row att y))))
                      * linear_row val x ! j) [0..<out_features val]"
proof -
  have len: "length (linear_row val x) = out_features val" for x
    by (simp add: linear_row_def)
  have "map2 (\<lambda>wt v. map ((*) wt) v) (softmax (map (\<lambda>x. hd (linear_row att x)) m))
          (map (linear_row val) m)
        = map (\<lambda>x. map ((*) (exp (hd (linear_row att x)) / (\<Sum>y\<leftarrow>m. exp (hd (linear_row att y)))))
                   (linear_row val x)) m"
    by (simp add: softmax_def map2_same comp_def)
  then show ?thesis
    by (simp add: context_row_def sum_dim1_def comp_def len cong: map_cong)
qed

lemma context_row_mset:
  assumes "mset m = mset m'"
  shows "context_row att val m = context_row att val m'"
proof -
  have Z: "(\<Sum>y\<leftarrow>m. exp (hd (linear_row att y))) = (\<Sum>y\<leftarrow>m'. exp (hd (linear_row att y)))"
    using assms by (rule sum_list_mset_cong)
  show ?thesis
    unfolding context_row_eq Z
    using sum_list_mset_cong[OF assms] by simp
qed

lemma attention_mix_context:
  "map_sum id tr_context (attention_mix self a b) =
     (case attention self of None \<Rightarrow> Inl TypeError | Some att \<Rightarrow>
        if dim2 a \<noteq> in_features att \<or> out_features att \<noteq> 1 then Inl RuntimeError
        else case value_proj self of None \<Rightarrow> Inl TypeError | Some val \<Rightarrow>
          if dim2 a \<noteq> in_features val then Inl RuntimeError
          else if b * ((dim2 a + out_features val) * action_size self)
                    \<noteq> dim0 a * dim1 a * (dim2 a + out_features val)
          then Inl RuntimeError
          else Inr \<lparr>size0 = dim0 a, size1 = out_features val, stride0 = max 1 (out_features val), stride1 = 1,
                    data2 = map (context_row att val) (data3 a)\<rparr>)"
  by (auto simp: attention_mix_def linear3_def squeeze_last_def Let_def view2_def numel3_def
      map2_same context_row_def comp_def split: option.splits)

lemma context_rows_perm:
  assumes "list_all2 (\<lambda>r r'. mset (chunks n k r') = mset (chunks n k r)) rows rows'"
  shows "map (context_row att val \<circ> chunks n k) rows'
           = map (context_row att val \<circ> chunks n k) rows"
  using assms by (induction rule: list_all2_induct) (auto intro: context_row_mset)

lemma attention_run_context:
  assumes wf: "tensor2_wf t" and mult: "size1 t = action_size self * k"
    and tail: "fst (strip_tail self t) = None" and b: "b = size0 t"
  shows "map_sum id (\<lambda>(tr, extra). tr_context tr) (fst (attention_run self w t b)) =
     (if action_size self = 0 then Inl ZeroDivisionError
      else case attention_build self w k of
             (Inl e, self1) \<Rightarrow> Inl e
           | (Inr u, self1) \<Rightarrow>
               map_sum id tr_context
                 (attention_mix self1
                    \<lparr>dim0 = b, dim1 = action_size self, dim2 = k,
                     data3 = map (chunks (action_size self) k) (data2 t)\<rparr> b))"
proof (cases "action_size self = 0")
  case True
  then show ?thesis
    by (auto simp: attention_run_def attention_pad_def on_ok_def Let_def split: prod.splits)
next
  case False
  have st: "strip_tail self t = (None, t)"
    using tail by (auto simp: strip_tail_def Let_def split: if_splits)
  have pad: "attention_pad self t b = Inr (t, k)"
    using False mult by (simp add: attention_pad_def Let_def)
  show ?thesis
  proof (cases "attention_build self w k")
    case (Pair res self1)
    show ?thesis
    proof (cases res)
      case (Inl e)
      then show ?thesis using False Pair st pad by (simp add: attention_run_def on_ok_def)
    next
      case (Inr u)
      have n1: "action_size self1 = action_size self"
        using attention_build_action_size[of self w k] Pair by simp
      have rs: "attention_reshape self1 w t b k =
           (Inr (\<lparr>dim0 = b, dim1 = action_size self, dim2 = k,
                  data3 = map (chunks (action_size self) k) (data2 t)\<rparr>, k), self1)"
        using attention_reshape_ok[of t self1 k b w] mult b n1
          view3_rows[OF wf mult b] by simp
      show ?thesis
        using False Pair Inr st pad rs
        by (auto simp: attention_run_def on_ok_def split: sum.splits)
    qed
  qed
qed

text \<open>
  Claim C8. Take a tail-free input of \<^verbatim>\<open>apply_attention\<close> whose width is
  \<^verbatim>\<open>action_size * k\<close>, and a second input of the same shape in which every row holds the
  same \<^verbatim>\<open>action_size\<close> chunks of width \<^verbatim>\<open>k\<close> in another order. From the same actor, both
  calls compute the same context (the attention-weighted sum of the value projections), or
  both raise the same exception. (Sums are taken over the reals.)
\<close>

theorem context_permutation_invariant:
  assumes "tensor2_wf t" and "tensor2_wf t'"
    and "size0 t' = size0 t" and "size1 t' = size1 t"
    and "size1 t = action_size self * k"
    and "fst (strip_tail self t) = None"
    and "batch_size = size0 t"
    and "list_all2 (\<lambda>r r'. mset (chunks (action_size self) k r') = mset (chunks (action_size self) k r))
           (data2 t) (data2 t')"
  shows "map_sum id (\<lambda>(tr, extra). tr_context tr) (fst (attention_run self w t' batch_size))
           = map_sum id (\<lambda>(tr, extra). tr_context tr) (fst (attention_run self w t batch_size))"
proof -
  have tail': "fst (strip_tail self t') = None"
    using assms(4,6) by (auto simp: strip_tail_def Let_def split: if_splits)
  have b': "batch_size = size0 t'" using assms(3,7) by simp
  have m': "size1 t' = action_size self * k" using assms(4,5) by simp
  have ctx: "map_sum id tr_context
               (attention_mix self1 \<lparr>dim0 = batch_size, dim1 = action_size self, dim2 = k,
                     data3 = map (chunks (action_size self) k) (data2 t')\<rparr> batch_size)
           = map_sum id tr_context
               (attention_mix self1 \<lparr>dim0 = batch_size, dim1 = action_size self, dim2 = k,
                     data3 = map (chunks (action_size self) k) (data2 t)\<rparr> batch_size)" for self1
  proof -
    have eq: "map (context_row att val) (map (chunks (action_size self) k) (data2 t'))
                = map (context_row att val) (map (chunks (action_size self) k) (data2 t))"
      for att val
      using context_rows_perm[OF assms(8), of att val] by simp
    show ?thesis
      by (simp only: attention_mix_context tensor3.select_convs eq)
  qed
  show ?thesis
    unfolding attention_run_context[OF assms(1) assms(5) assms(6) assms(7)]
      attention_run_context[OF assms(2) m' tail' b']
    using ctx by (auto split: prod.splits sum.splits)
qed

lemma chunks_3_4:
  "chunks 3 4 [a, b, c, d, e, f, g, h, i, j, k, l] = [[a, b, c, d], [e, f, g, h], [i, j, k, l]]"
  by (simp add: chunks_def upt_rec eval_nat_numeral)

theorem context_permutation_invariant_witness:
  "tensor2_wf encoded_12 \<and> tensor2_wf encoded_12_swapped \<and>
   size0 encoded_12_swapped = size0 encoded_12 \<and> size1 encoded_12_swapped = size1 encoded_12 \<and>
   size1 encoded_12 = action_size (example_actor 12 4) * 4 \<and>
   fst (strip_tail (example_actor 12 4) encoded_12) = None \<and>
   (1::nat) = size0 encoded_12 \<and>
   list_all2 (\<lambda>r r'. mset (chunks (action_size (example_actor 12 4)) 4 r')
                        = mset (chunks (action_size (example_actor 12 4)) 4 r))
     (data2 encoded_12) (data2 encoded_12_swapped) \<and>
   map_sum id (\<lambda>(tr, extra). tr_context tr)
       (fst (attention_run (example_actor 12 4) half_actor_draws encoded_12_swapped 1))
     = map_sum id (\<lambda>(tr, extra). tr_context tr)
         (fst (attention_run (example_actor 12 4) half_actor_draws encoded_12 1)) \<and>
   (\<exists>tr extra. fst (attention_run (example_actor 12 4) half_actor_draws encoded_12 1)
                  = Inr (tr, extra))"
proof -
  let ?A = "example_actor 12 4"
  have n: "action_size ?A = 3" by (simp add: example_actor_def)
  have h1: "tensor2_wf encoded_12" by (simp add: tensor2_wf_def encoded_12_def)
  have h2: "tensor2_wf encoded_12_swapped" by (simp add: tensor2_wf_def encoded_12_swapped_def)
  have h3: "size0 encoded_12_swapped = size0 encoded_12"
    by (simp add: encoded_12_def encoded_12_swapped_def)
  have h4: "size1 encoded_12_swapped = size1 encoded_12"
    by (simp add: encoded_12_def encoded_12_swapped_def)
  have h5: "size1 encoded_12 = action_size ?A * 4" by (simp add: n encoded_12_def)
  have st: "strip_tail ?A encoded_12 = (None, encoded_12)"
    by (simp add: strip_tail_def example_actor_def Let_def)
  have h6: "fst (strip_tail ?A encoded_12) = None" by (simp add: st)
  have h7: "(1::nat) = size0 encoded_12" by (simp add: encoded_12_def)
  have h8: "list_all2 (\<lambda>r r'. mset (chunks (action_size ?A) 4 r') = mset (chunks (action_size ?A) 4 r))
     (data2 encoded_12) (data2 encoded_12_swapped)"
    by (simp add: n encoded_12_def encoded_12_swapped_def chunks_3_4)
  have ok: "\<exists>tr extra. fst (attention_run ?A half_actor_draws encoded_12 1) = Inr (tr, extra)"
  proof -
    have a: "action_size ?A \<noteq> 0" by (simp add: n)
    have c: "size1 (snd (strip_tail ?A encoded_12)) \<noteq> 0"
      by (simp only: st snd_conv) (simp add: encoded_12_def)
    have d: "attention_fits ?A" by (simp add: attention_fits_def example_actor_def)
    from attention_run_ok[OF a h7 c d, of half_actor_draws] show ?thesis by auto
  qed
  show ?thesis
    using context_permutation_invariant[OF h1 h2 h3 h4 h5 h6 h7 h8, of half_actor_draws]
      h1 h2 h3 h4 h5 h6 h7 h8 ok
    by blast
qed

section \<open>The extra-feature tail\<close>

lemma length_chunks: "length (chunks b m xs) = b"
  by (simp add: chunks_def)

lemma chunks_rows:
  "list_all (\<lambda>r. length r = n) (map (chunks n k) xss)"
  by (simp add: list_all_iff length_chunks)

lemma concat_lengths:
  assumes "list_all (\<lambda>m. length m = n \<and> list_all (\<lambda>r. length r = k) m) D"
  shows "list_all (\<lambda>r. length r = n * k) (map concat D)"
  using assms
proof (induction D)
  case Nil then show ?case by simp
next
  case (Cons m D)
  have "length (concat m) = length m * k" if "list_all (\<lambda>r. length r = k) m" for m :: "'a list list"
    using that by (induction m) auto
  then show ?case using Cons by simp
qed

lemma concat_concat_chunks:
  assumes "length D = b" and "list_all (\<lambda>m. length m = n \<and> list_all (\<lambda>r. length r = k) m) D"
  shows "chunks b (n * k) (concat (concat D)) = map concat D"
proof -
  have "concat (concat D) = concat (map concat D)" by (induction D) auto
  then show ?thesis using chunks_concat[OF concat_lengths[OF assms(2)]] assms(1) by simp
qed

lemma map_drop_map2_append:
  "length xs = length ys \<Longrightarrow> list_all (\<lambda>x. length x = m) xs \<Longrightarrow>
     map (drop m) (map2 (@) xs ys) = ys"
  by (induction xs ys rule: list_induct2) auto

lemma encode_assets_data:
  assumes wf: "encoder_wf self" and d: "dim2 a = features_per_asset self" "dim0 a = b" "dim1 a = n"
    and len: "length (data3 a) = b" "list_all (\<lambda>m. length m = n) (data3 a)"
    and ex: "size0 ex = b" "length (data2 ex) = b"
  shows "\<exists>y enc. encode_assets self a (Some ex) b n = Inr y \<and> size0 y = b \<and>
           size1 y = n * output_size self + size1 ex \<and>
           length enc = b \<and> list_all (\<lambda>r. length r = n * output_size self) enc \<and>
           data2 y = map2 (@) enc (data2 ex)"
proof -
  let ?f = "\<lambda>x. map relu (linear_row (enc_fc2 self) (map relu (linear_row (enc_fc1 self) x)))"
  let ?D = "map (map ?f) (data3 a)"
  have lenf: "length (?f x) = output_size self" for x
    using wf by (simp add: linear_row_def encoder_wf_def)
  have D: "length ?D = b" "list_all (\<lambda>m. length m = n \<and> list_all (\<lambda>r. length r = output_size self) m) ?D"
    using len lenf by (simp_all add: list_all_iff)
  have c: "chunks b (n * output_size self) (concat (concat ?D)) = map concat ?D"
    using concat_concat_chunks[OF D] .
  have l: "list_all (\<lambda>r. length r = n * output_size self) (map concat ?D)"
    using concat_lengths[OF D(2)] .
  have e: "encode_assets self a (Some ex) b n =
             Inr \<lparr>size0 = b, size1 = n * output_size self + size1 ex, stride0 = max 1 (n * output_size self + size1 ex), stride1 = 1,
                  data2 = map2 (@) (map concat ?D) (data2 ex)\<rparr>"
    using wf d ex c
    by (simp add: encode_assets_def encoder_wf_def linear3_def relu3_def view2_def numel3_def
        cat1_def comp_def)
  show ?thesis
    by (rule exI[of _ "\<lparr>size0 = b, size1 = n * output_size self + size1 ex, stride0 = max 1 (n * output_size self + size1 ex), stride1 = 1,
                  data2 = map2 (@) (map concat ?D) (data2 ex)\<rparr>"], rule exI[of _ "map concat ?D"])
       (use e l D(1) in simp)
qed

lemma forward_tail:
  assumes wf: "encoder_wf self" and st: "tensor2_wf state"
    and wide: "n * features_per_asset self < size1 state"
  shows "\<exists>y enc. AssetEncoder_forward self state n = (Inr y, self\<lparr>first_forward_done := True\<rparr>) \<and>
           size0 y = size0 state \<and>
           size1 y = n * output_size self + (size1 state - n * features_per_asset self) \<and>
           length enc = size0 state \<and> list_all (\<lambda>r. length r = n * output_size self) enc \<and>
           data2 y = map2 (@) enc (map (drop (n * features_per_asset self)) (data2 state))"
proof -
  let ?self1 = "self\<lparr>first_forward_done := True\<rparr>"
  let ?a = "\<lparr>dim0 = size0 state, dim1 = n, dim2 = features_per_asset self,
               data3 = map (chunks n (features_per_asset self))
                 (chunks (size0 state) (n * features_per_asset self)
                   (concat (data2 (asset_block ?self1 state n))))\<rparr>"
  let ?ex = "narrow_from (n * features_per_asset self) state"
  have wf1: "encoder_wf ?self1" using wf by (simp add: encoder_wf_def)
  have fw: "AssetEncoder_forward self state n = (encode_assets ?self1 ?a (Some ?ex) (size0 state) n, ?self1)"
    using wide by (simp add: AssetEncoder_forward_eq Let_def extra_block_def)
  have len: "length (data2 state) = size0 state" using st by (simp add: tensor2_wf_def)
  from encode_assets_data[OF wf1, of ?a "size0 state" n ?ex]
  obtain y enc where y: "encode_assets ?self1 ?a (Some ?ex) (size0 state) n = Inr y"
    "size0 y = size0 state" "size1 y = n * output_size ?self1 + size1 ?ex"
    "length enc = size0 state" "list_all (\<lambda>r. length r = n * output_size ?self1) enc"
    "data2 y = map2 (@) enc (data2 ?ex)"
    using len by (auto simp: length_chunks chunks_rows narrow_from_def)
  show ?thesis
    by (rule exI[of _ y], rule exI[of _ enc]) (use fw y in \<open>simp add: narrow_from_def\<close>)
qed

lemma chunks_lengths:
  assumes "length xs = n * k"
  shows "list_all (\<lambda>c. length c = k) (chunks n k xs)"
proof -
  have "min (n * k - i * k) k = k" if "i < n" for i
  proof -
    have "Suc i \<le> n" using that by simp
    then have "Suc i * k \<le> n * k" by (rule mult_le_mono1)
    then show ?thesis by simp
  qed
  then show ?thesis using assms by (simp add: chunks_def list_all_iff)
qed

lemma map2_map_right: "map2 f xs (map h xs) = map (\<lambda>x. f x (h x)) xs"
  by (induction xs) auto

lemma attention_mix_flattened:
  assumes att: "attention self = Some L" "in_features L = k" "out_features L = 1"
    and val: "value_proj self = Some V" "in_features V = k" "out_features V = k"
    and d: "dim0 a = b" "dim1 a = action_size self" "dim2 a = k"
    and wf: "tensor3_wf a"
  shows "\<exists>tr. attention_mix self a b = Inr tr \<and> size0 (tr_flattened tr) = b \<and>
           size1 (tr_flattened tr) = (k + k) * action_size self \<and>
           stride0 (tr_flattened tr) = max 1 ((k + k) * action_size self) \<and>
           stride1 (tr_flattened tr) = 1 \<and>
           data2 (tr_flattened tr) = map (\<lambda>m. concat (map (\<lambda>x. x @ context_row L V m) m)) (data3 a)"
proof -
  let ?n = "action_size self"
  let ?E = "map (\<lambda>m. map (\<lambda>x. x @ context_row L V m) m) (data3 a)"
  have lenc: "length (context_row L V m) = k" for m
    using val by (simp add: context_row_def sum_dim1_def)
  have lenD: "length (data3 a) = b" and
       rows: "\<And>m. m \<in> set (data3 a) \<Longrightarrow> length m = ?n \<and> (\<forall>r \<in> set m. length r = k)"
    using wf d by (auto simp: tensor3_wf_def list_all_iff)
  have E: "length ?E = b"
    "list_all (\<lambda>m. length m = ?n \<and> list_all (\<lambda>r. length r = k + k) m) ?E"
    using lenD rows lenc by (auto simp: list_all_iff)
  have c: "chunks b (?n * (k + k)) (concat (concat ?E)) = map concat ?E"
    using concat_concat_chunks[OF E] .
  have ctx: "map2 (\<lambda>ws vs. sum_dim1 k (map2 (\<lambda>wt v. map ((*) wt) v) ws vs))
               (map softmax (map (map hd) (map (map (linear_row L)) (data3 a))))
               (map (map (linear_row V)) (data3 a))
             = map (context_row L V) (data3 a)"
    using val by (simp add: map2_same context_row_def comp_def)
  have en: "map2 (\<lambda>as c. map (\<lambda>a. a @ c) as) (data3 a) (map (context_row L V) (data3 a)) = ?E"
    by (simp add: map2_map_right)
  have "attention_mix self a b =
          Inr \<lparr>tr_assets = a,
               tr_weights = \<lparr>size0 = b, size1 = ?n, stride0 = max 1 ?n, stride1 = 1,
                  data2 = map softmax (map (map hd) (map (map (linear_row L)) (data3 a)))\<rparr>,
               tr_values = \<lparr>dim0 = b, dim1 = ?n, dim2 = k,
                  data3 = map (map (linear_row V)) (data3 a)\<rparr>,
               tr_context = \<lparr>size0 = b, size1 = k, stride0 = max 1 k, stride1 = 1, data2 = map (context_row L V) (data3 a)\<rparr>,
               tr_flattened = \<lparr>size0 = b, size1 = (k + k) * ?n, stride0 = max 1 ((k + k) * ?n), stride1 = 1, data2 = map concat ?E\<rparr>\<rparr>"
    using att val d ctx en c
    by (simp add: attention_mix_def linear3_def squeeze_last_def Let_def view2_def numel3_def
        mult.commute)
  then show ?thesis by (simp add: comp_def)
qed

lemma apply_attention_tail:
  assumes n: "action_size self \<noteq> 0" and wf: "tensor2_wf y" and b: "b = size0 y"
    and e: "extra_features self = int e" "0 < e"
    and guard: "action_size self * act_features_per_asset self < size1 y"
    and mult: "size1 y = action_size self * k + e" and k: "k \<noteq> 0"
    and fits: "attention_fits self"
  shows "\<exists>z self'. apply_attention self w y b = (Inr z, self') \<and> size0 z = b \<and>
           size1 z = (k + k) * action_size self + e \<and>
           map (drop ((k + k) * action_size self)) (data2 z)
             = map (drop (action_size self * k)) (data2 y)"
proof -
  let ?n = "action_size self"
  let ?enc1 = "drop_last_columns e y"
  let ?ex = "last_columns e y"
  have st: "strip_tail self y = (Some ?ex, ?enc1)"
    using e guard by (simp add: strip_tail_def Let_def)
  have lenY: "length (data2 y) = b" and rowsY: "\<And>r. r \<in> set (data2 y) \<Longrightarrow> length r = ?n * k + e"
    using wf b mult by (auto simp: tensor2_wf_def list_all_iff)
  have enc1: "size0 ?enc1 = b" "size1 ?enc1 = ?n * k" "tensor2_wf ?enc1"
    using b mult lenY rowsY by (auto simp: drop_last_columns_def tensor2_wf_def list_all_iff)
  have pad: "attention_pad self ?enc1 b = Inr (?enc1, k)"
    using n enc1(2) by (simp add: attention_pad_def Let_def)
  from attention_build_ok[OF k fits, of w]
  obtain self1 L V where s1: "attention_build self w k = (Inr (), self1)"
    "attention self1 = Some L" "in_features L = k" "out_features L = 1"
    "value_proj self1 = Some V" "in_features V = k" "out_features V = k"
    "action_size self1 = action_size self" by blast
  let ?a = "\<lparr>dim0 = b, dim1 = ?n, dim2 = k, data3 = map (chunks ?n k) (data2 ?enc1)\<rparr>"
  have rs: "attention_reshape self1 w ?enc1 b k = (Inr (?a, k), self1)"
    using attention_reshape_ok[of ?enc1 self1 k b w] enc1 s1(8)
      view3_rows[OF enc1(3), of ?n k b] by simp
  have wfa: "tensor3_wf ?a"
  proof -
    have "list_all (\<lambda>c. length c = k) (chunks ?n k r)" if "r \<in> set (data2 ?enc1)" for r
      using that enc1(2,3) chunks_lengths[of r ?n k] by (auto simp: tensor2_wf_def list_all_iff)
    then show ?thesis
      using enc1(1,3) by (auto simp: tensor3_wf_def tensor2_wf_def list_all_iff length_chunks)
  qed
  from attention_mix_flattened[OF s1(2-7), of ?a b] wfa s1(8)
  obtain tr where tr: "attention_mix self1 ?a b = Inr tr" "size0 (tr_flattened tr) = b"
    "size1 (tr_flattened tr) = (k + k) * ?n"
    "data2 (tr_flattened tr) = map (\<lambda>m. concat (map (\<lambda>x. x @ context_row L V m) m)) (data3 ?a)"
    by auto
  have run: "attention_run self w y b = (Inr (tr, Some ?ex), self1)"
    using st pad s1(1) rs tr(1) by (simp add: attention_run_def on_ok_def)
  let ?z = "\<lparr>size0 = b, size1 = (k + k) * ?n + min e (size1 y), stride0 = max 1 ((k + k) * ?n + min e (size1 y)), stride1 = 1,
             data2 = map2 (@) (data2 (tr_flattened tr)) (data2 ?ex)\<rparr>"
  have ap: "apply_attention self w y b = (Inr ?z, self1)"
    using run tr(2,3) b by (simp add: apply_attention_def cat1_def last_columns_def)
  have flatrows: "list_all (\<lambda>r. length r = (k + k) * ?n) (data2 (tr_flattened tr))"
  proof -
    have lenc: "length (context_row L V m) = k" for m
      using s1(7) by (simp add: context_row_def sum_dim1_def)
    have "list_all (\<lambda>m. length m = ?n \<and> list_all (\<lambda>r. length r = k + k) m)
            (map (\<lambda>m. map (\<lambda>x. x @ context_row L V m) m) (data3 ?a))"
      using wfa lenc by (auto simp: tensor3_wf_def list_all_iff)
    from concat_lengths[OF this] show ?thesis
      by (simp add: tr(4) comp_def mult.commute)
  qed
  have lens: "length (data2 (tr_flattened tr)) = length (data2 ?ex)"
    using lenY by (simp add: tr(4) last_columns_def drop_last_columns_def)
  have "map (drop ((k + k) * ?n)) (data2 ?z) = data2 ?ex"
    using map_drop_map2_append[OF lens flatrows] by simp
  also have "\<dots> = map (drop (?n * k)) (data2 y)"
    using mult by (simp add: last_columns_def)
  finally have tail: "map (drop ((k + k) * ?n)) (data2 ?z) = map (drop (?n * k)) (data2 y)" .
  show ?thesis
    by (rule exI[of _ ?z], rule exI[of _ self1]) (use ap tail mult in simp)
qed

lemma linear_row_zero: "linear_row (zero_linear i n) x = replicate n 0"
  by (simp add: linear_row_def zero_linear_def map_replicate_const sum_list_replicate)

lemma zero_linear_sel:
  "in_features (zero_linear i n) = i" "out_features (zero_linear i n) = n"
  by (simp_all add: zero_linear_def)

lemma chunks_1: "chunks 1 m xs = [take m xs]" "chunks (Suc 0) m xs = [take m xs]"
  by (simp_all add: chunks_def)

lemma replicate_3: "replicate 3 x = [x, x, x]"
  by (simp add: eval_nat_numeral)

lemma replicate_4: "replicate 4 x = [x, x, x, x]"
  by (simp add: eval_nat_numeral)

lemma relu_0: "relu 0 = 0"
  by (simp add: relu_def)

lemma encoder_on_observation_14:
  "AssetEncoder_forward (example_encoder 4 3) observation_14 3
     = (Inr encoded_11, example_encoder 4 3\<lparr>first_forward_done := True\<rparr>)"
proof -
  have blk: "data2 (asset_block (example_encoder 4 3\<lparr>first_forward_done := True\<rparr>) observation_14 3)
               = [[1, 2, 3, 4, 5, 6, 7, 8, 9, 10, 11, 12]]"
    by (simp add: asset_block_def narrow_to_def example_encoder_def observation_14_def)
  have ex: "extra_block (example_encoder 4 3\<lparr>first_forward_done := True\<rparr>) observation_14 3
               = Some \<lparr>size0 = 1, size1 = 2, stride0 = 14, stride1 = 1, data2 = [[13, 14]]\<rparr>"
    by (simp add: extra_block_def narrow_from_def example_encoder_def observation_14_def Let_def)
  have enc: "encode_assets (example_encoder 4 3\<lparr>first_forward_done := True\<rparr>)
               \<lparr>dim0 = 1, dim1 = 3, dim2 = 4,
                data3 = [[[1, 2, 3, 4], [5, 6, 7, 8], [9, 10, 11, 12]]]\<rparr>
               (Some \<lparr>size0 = 1, size1 = 2, stride0 = 14, stride1 = 1, data2 = [[13, 14]]\<rparr>) 1 3 = Inr encoded_11"
    by (simp add: encode_assets_def example_encoder_def linear3_def relu3_def view2_def numel3_def
        cat1_def linear_row_zero zero_linear_sel relu_0 replicate_3 chunks_1 encoded_11_def)
  have f: "features_per_asset (example_encoder 4 3) = 4" by (simp add: example_encoder_def)
  have s0: "size0 observation_14 = 1" and s1: "size1 observation_14 = 14"
    by (simp_all add: observation_14_def)
  have d: "map (chunks 3 4) (chunks 1 12 (concat
             (data2 (asset_block (example_encoder 4 3\<lparr>first_forward_done := True\<rparr>) observation_14 3))))
           = [[[1, 2, 3, 4], [5, 6, 7, 8], [9, 10, 11, 12]]]"
    by (simp add: blk chunks_1 chunks_3_4)
  have "AssetEncoder_forward (example_encoder 4 3) observation_14 3 =
          (encode_assets (example_encoder 4 3\<lparr>first_forward_done := True\<rparr>)
             \<lparr>dim0 = 1, dim1 = 3, dim2 = 4,
              data3 = map (chunks 3 4) (chunks 1 12 (concat
                (data2 (asset_block (example_encoder 4 3\<lparr>first_forward_done := True\<rparr>) observation_14 3))))\<rparr>
             (extra_block (example_encoder 4 3\<lparr>first_forward_done := True\<rparr>) observation_14 3) 1 3,
           example_encoder 4 3\<lparr>first_forward_done := True\<rparr>)"
    by (simp add: AssetEncoder_forward_eq Let_def f s0 s1)
  then show ?thesis by (simp only: d ex enc)
qed

lemma context_row_zero: "context_row L (zero_linear k k) m = replicate k 0"
proof -
  have "map (\<lambda>j. \<Sum>x\<leftarrow>m. (exp (hd (linear_row L x)) / (\<Sum>y\<leftarrow>m. exp (hd (linear_row L y))))
                      * replicate k 0 ! j) [0..<k] = map (\<lambda>_. 0) [0..<k]"
    by (rule map_cong) simp_all
  then show ?thesis
    by (simp add: context_row_eq linear_row_zero zero_linear_sel map_replicate_const)
qed

lemma initialize_attention_layers_half:
  "0 < k \<Longrightarrow>
   initialize_attention_layers self half_draws half_draws k =
     (Inr (), self\<lparr>attention := Some (zero_linear k 1), value_proj := Some (zero_linear k k),
                   effective_encoding_size := Some k\<rparr>)"
  by (simp add: initialize_attention_layers_def Let_def uniform_fill_def nn_Linear_def
      half_draws_def zero_linear_def)

lemma attention_on_encoded_11:
  "fst (apply_attention (example_actor 14 3\<lparr>asset_encoder := enc\<rparr>) half_actor_draws encoded_11 1)
     = Inr flattened_24"
proof -
  let ?A = "example_actor 14 3\<lparr>asset_encoder := enc\<rparr>"
  let ?A1 = "?A\<lparr>attention := Some (zero_linear 4 1), value_proj := Some (zero_linear 4 4),
                  effective_encoding_size := Some 4\<rparr>"
  let ?p = "\<lparr>size0 = 1, size1 = 12, stride0 = 12, stride1 = 1, data2 = [[0, 0, 0, 0, 0, 0, 0, 0, 0, 13, 14, 0]]\<rparr>"
  let ?a = "\<lparr>dim0 = 1, dim1 = 3, dim2 = 4,
             data3 = [[[0, 0, 0, 0], [0, 0, 0, 0], [0, 13, 14, 0]]]\<rparr>"
  have n: "action_size ?A = 3" "action_size ?A1 = 3" "action_size (example_actor 14 3) = 3"
    by (simp_all add: example_actor_def)
  have st: "strip_tail ?A encoded_11 = (None, encoded_11)"
    by (simp add: strip_tail_def example_actor_def encoded_11_def Let_def)
  have pad: "attention_pad ?A encoded_11 1 = Inr (?p, 4)"
    by (simp add: attention_pad_def example_actor_def encoded_11_def Let_def cat1_def zeros_def)
  have bld: "attention_build ?A half_actor_draws 4 = (Inr (), ?A1)"
    by (simp add: attention_build_def initialize_attention_layers_half half_actor_draws_def)
       (simp add: example_actor_def)
  have rs: "attention_reshape ?A1 half_actor_draws ?p 1 4 = (Inr (?a, 4), ?A1)"
    using attention_reshape_ok[of ?p ?A1 4 1 half_actor_draws]
    by (simp add: n chunks_1 chunks_3_4)
  have wfa: "tensor3_wf ?a" by (simp add: tensor3_wf_def)
  have sel: "attention ?A1 = Some (zero_linear 4 1)" "value_proj ?A1 = Some (zero_linear 4 4)"
    by simp_all
  from attention_mix_flattened[OF sel(1) zero_linear_sel(1) zero_linear_sel(2)
      sel(2) zero_linear_sel(1) zero_linear_sel(2), of ?a 1] wfa n(2)
  obtain tr where tr: "attention_mix ?A1 ?a 1 = Inr tr" "size0 (tr_flattened tr) = 1"
    "size1 (tr_flattened tr) = (4 + 4) * 3"
    "stride0 (tr_flattened tr) = max 1 ((4 + 4) * 3)" "stride1 (tr_flattened tr) = 1"
    "data2 (tr_flattened tr)
       = map (\<lambda>m. concat (map (\<lambda>x. x @ context_row (zero_linear 4 1) (zero_linear 4 4) m) m)) (data3 ?a)"
    by auto
  have "tr_flattened tr = flattened_24"
    using tr(2-6) by (simp add: flattened_24_def context_row_zero replicate_4)
  moreover have "apply_attention ?A half_actor_draws encoded_11 1 = (Inr (tr_flattened tr), ?A1)"
    using st pad bld rs tr(1) by (simp add: apply_attention_def attention_run_def on_ok_def)
  ultimately show ?thesis by simp
qed

text \<open>
  Claim C6, in its own scenario (observation width 14, three assets of four features, the
  actor built for state size 14, so \<^verbatim>\<open>extra_features = 2\<close>) with an encoder output size of 3.
  The encoder splits at \<^verbatim>\<open>num_assets * features_per_asset = 12\<close> raw columns (lines 86-87)
  and keeps the tail 13, 14 at the end of its output of width 11. The test of line 171 in
  \<^verbatim>\<open>apply_attention\<close> compares this encoded width with the raw block width
  \<^verbatim>\<open>action_size * features_per_asset = 12\<close>; 11 is not more than 12, so nothing is stripped,
  the tail stays inside the asset block, the block is padded to 12 and split into three
  chunks. The output has width 24 and ends with the context; the tail sits in columns 17
  and 18 and is not reattached at the end.
\<close>

theorem tail_left_inside_asset_block:
  "extra_features (example_actor 14 3) = 2 \<and>
   fst (AssetEncoder_forward (asset_encoder (example_actor 14 3)) observation_14
          (action_size (example_actor 14 3))) = Inr encoded_11 \<and>
   strip_tail (example_actor 14 3) encoded_11 = (None, encoded_11) \<and>
   fst (encode_state (example_actor 14 3) half_actor_draws observation_14) = Inr flattened_24 \<and>
   data2 (narrow_from 12 observation_14) = [[13, 14]] \<and>
   data2 (last_columns 2 encoded_11) = [[13, 14]] \<and>
   data2 (last_columns 2 flattened_24) = [[0, 0]]"
proof -
  let ?A = "example_actor 14 3"
  have sel: "asset_encoder ?A = example_encoder 4 3" "action_size ?A = 3" "use_attention ?A"
    by (simp_all add: example_actor_def)
  have s0: "size0 observation_14 = 1" by (simp add: observation_14_def)
  have 1: "fst (AssetEncoder_forward (asset_encoder ?A) observation_14 (action_size ?A)) = Inr encoded_11"
    by (simp add: sel encoder_on_observation_14)
  have 2: "fst (encode_state ?A half_actor_draws observation_14) = Inr flattened_24"
    using attention_on_encoded_11[of "example_encoder 4 3\<lparr>first_forward_done := True\<rparr>"]
    by (simp add: encode_state_def sel encoder_on_observation_14 on_ok_def Let_def s0)
  have 3: "data2 (narrow_from 12 observation_14) = [[13, 14]]"
    by (simp add: narrow_from_def observation_14_def)
  have 4: "data2 (last_columns 2 encoded_11) = [[13, 14]]"
    by (simp add: last_columns_def encoded_11_def)
  have 5: "data2 (last_columns 2 flattened_24) = [[0, 0]]"
    by (simp add: last_columns_def flattened_24_def)
  have 6: "extra_features ?A = 2" by (simp add: example_actor_def)
  have 7: "strip_tail ?A encoded_11 = (None, encoded_11)"
    by (simp add: strip_tail_def example_actor_def encoded_11_def Let_def)
  show ?thesis using 1 2 3 4 5 6 7 by simp
qed

text \<open>When the test of line 171 does hold, the tail is stripped before the attention step
  and reattached behind its output.\<close>

lemma encode_state_tail:
  assumes "encoder_wf (asset_encoder self)" and "tensor2_wf state" and "use_attention self"
    and "act_features_per_asset self = features_per_asset (asset_encoder self)"
    and "action_size self \<noteq> 0" and "output_size (asset_encoder self) \<noteq> 0"
    and "attention_fits self"
    and "action_size self * features_per_asset (asset_encoder self) < size1 state"
    and "extra_features self
           = int (size1 state) - int (action_size self * features_per_asset (asset_encoder self))"
    and "action_size self * features_per_asset (asset_encoder self)
           < action_size self * output_size (asset_encoder self)
             + (size1 state - action_size self * features_per_asset (asset_encoder self))"
  shows "\<exists>y z.
           fst (AssetEncoder_forward (asset_encoder self) state (action_size self)) = Inr y \<and>
           size1 y = action_size self * output_size (asset_encoder self)
                       + (size1 state - action_size self * features_per_asset (asset_encoder self)) \<and>
           data2 (last_columns (size1 state - action_size self * features_per_asset (asset_encoder self)) y)
             = data2 (narrow_from (action_size self * features_per_asset (asset_encoder self)) state) \<and>
           fst (encode_state self w state) = Inr z \<and>
           size1 z = 2 * output_size (asset_encoder self) * action_size self
                       + (size1 state - action_size self * features_per_asset (asset_encoder self)) \<and>
           data2 (last_columns (size1 state - action_size self * features_per_asset (asset_encoder self)) z)
             = data2 (narrow_from (action_size self * features_per_asset (asset_encoder self)) state)"
proof -
  let ?n = "action_size self"
  let ?enc = "asset_encoder self"
  let ?fpa = "features_per_asset ?enc"
  let ?out = "output_size ?enc"
  let ?e = "size1 state - ?n * ?fpa"
  let ?enc1 = "?enc\<lparr>first_forward_done := True\<rparr>"
  let ?self1 = "self\<lparr>asset_encoder := ?enc1\<rparr>"
  from forward_tail[OF assms(1) assms(2) assms(8)]
  obtain y rows where y: "AssetEncoder_forward ?enc state ?n = (Inr y, ?enc1)"
    "size0 y = size0 state" "size1 y = ?n * ?out + ?e"
    "length rows = size0 state" "list_all (\<lambda>r. length r = ?n * ?out) rows"
    "data2 y = map2 (@) rows (map (drop (?n * ?fpa)) (data2 state))"
    by blast
  have lenS: "length (data2 state) = size0 state" and
       rowsS: "\<And>r. r \<in> set (data2 state) \<Longrightarrow> length r = size1 state"
    using assms(2) by (auto simp: tensor2_wf_def list_all_iff)
  have len2: "length rows = length (map (drop (?n * ?fpa)) (data2 state))"
    using y(4) lenS by simp
  have ytail: "map (drop (?n * ?out)) (data2 y) = map (drop (?n * ?fpa)) (data2 state)"
    using map_drop_map2_append[OF len2 y(5)] y(6) by simp
  have wfy: "tensor2_wf y"
  proof -
    have "length (data2 y) = size0 y" using y(2,4,6) lenS by simp
    moreover have "length r = size1 y" if "r \<in> set (data2 y)" for r
    proof -
      from that y(6) obtain a c where ac: "r = a @ c" "a \<in> set rows"
        "c \<in> set (map (drop (?n * ?fpa)) (data2 state))"
        by (auto simp: set_zip)
      have "length a = ?n * ?out" using ac(2) y(5) by (simp add: list_all_iff)
      moreover have "length c = ?e" using ac(3) rowsS by auto
      ultimately show ?thesis using ac(1) y(3) by simp
    qed
    ultimately show ?thesis by (simp add: tensor2_wf_def list_all_iff)
  qed
  have epos: "0 < ?e" using assms(8) by simp
  have eint: "extra_features ?self1 = int ?e" using assms(8,9) by simp
  have guard: "action_size ?self1 * act_features_per_asset ?self1 < size1 y"
    using assms(4,10) y(3) by simp
  have n1: "action_size ?self1 \<noteq> 0" using assms(5) by simp
  have y3: "size1 y = action_size ?self1 * ?out + ?e" using y(3) by simp
  have fits1: "attention_fits ?self1" using assms(7) by (simp add: attention_fits_def)
  from apply_attention_tail[OF n1 wfy refl eint epos guard y3 assms(6) fits1, of w]
  obtain z self' where z: "apply_attention ?self1 w y (size0 y) = (Inr z, self')"
    "size1 z = (?out + ?out) * ?n + ?e"
    "map (drop ((?out + ?out) * ?n)) (data2 z) = map (drop (?n * ?out)) (data2 y)"
    by auto
  have es: "fst (encode_state self w state) = Inr z"
    using y(1,2) z(1) assms(3) by (simp add: encode_state_def on_ok_def Let_def)
  have ly: "data2 (last_columns ?e y) = data2 (narrow_from (?n * ?fpa) state)"
    using ytail y(3) by (simp add: last_columns_def narrow_from_def)
  have lz: "data2 (last_columns ?e z) = data2 (narrow_from (?n * ?fpa) state)"
    using z(2,3) ytail by (simp add: last_columns_def narrow_from_def)
  have sz: "size1 z = 2 * ?out * ?n + ?e" using z(2) by (simp add: mult_2)
  show ?thesis
    by (rule exI[of _ y], rule exI[of _ z]) (use y(1,3) ly es sz lz in simp)
qed

section \<open>The lazily built trunk\<close>

lemma fresh_linear_within:
  assumes "unit_draws d" and "0 < bnd"
  shows "weights_within bnd (fresh_linear bnd d i n)"
proof -
  have "- bnd \<le> - bnd + (bnd - - bnd) * u \<and> - bnd + (bnd - - bnd) * u < bnd"
    if "0 \<le> u" "u < 1" for u :: real
  proof -
    have "(bnd - - bnd) * u = 2 * bnd * u" by simp
    moreover have "0 \<le> 2 * bnd * u" using that(1) assms(2) by simp
    moreover have "2 * bnd * u < 2 * bnd * 1"
      using that(2) assms(2) by (intro mult_strict_left_mono) simp_all
    ultimately show ?thesis by linarith
  qed
  note key = this
  have w: "weight (fresh_linear bnd d i n) r c = - bnd + (bnd - - bnd) * uniform01 d r c" for r c
    by (simp add: fresh_linear_def uniform_fill_def)
  have b: "bias (fresh_linear bnd d i n) j = 0" for j
    by (simp add: fresh_linear_def uniform_fill_def)
  show ?thesis
    unfolding weights_within_def w b
    using key assms(1)[unfolded unit_draws_def] by blast
qed

lemma initialize_attention_layers_trunk:
  "trunk_layers (snd (initialize_attention_layers self da dv k)) = trunk_layers self"
  "trunk_config (snd (initialize_attention_layers self da dv k)) = trunk_config self"
  by (simp_all add: initialize_attention_layers_def Let_def trunk_layers_def trunk_config_def)

lemma attention_build_trunk:
  "trunk_layers (snd (attention_build self w k)) = trunk_layers self"
  "trunk_config (snd (attention_build self w k)) = trunk_config self"
  by (simp_all add: attention_build_def initialize_attention_layers_trunk)

lemma attention_reshape_trunk:
  "trunk_layers (snd (attention_reshape self w blk b k)) = trunk_layers self \<and>
   trunk_config (snd (attention_reshape self w blk b k)) = trunk_config self"
proof (cases "view3 blk b (action_size self) k")
  case (Inr a)
  then show ?thesis by (simp add: attention_reshape_def)
next
  case (Inl e)
  let ?i = "initialize_attention_layers self (d_attention_retry w) (d_value_retry w)
              (numel2 blk div (b * action_size self))"
  have i: "trunk_layers (snd ?i) = trunk_layers self" "trunk_config (snd ?i) = trunk_config self"
    by (rule initialize_attention_layers_trunk)+
  show ?thesis
  proof (cases ?i)
    case (Pair r s)
    then show ?thesis using Inl i
      by (cases r) (auto simp: attention_reshape_def Let_def split: sum.splits)
  qed
qed

lemma attention_run_trunk:
  "trunk_layers (snd (attention_run self w enc b)) = trunk_layers self \<and>
   trunk_config (snd (attention_run self w enc b)) = trunk_config self"
proof (cases "attention_pad self (snd (strip_tail self enc)) b")
  case (Inl e)
  then show ?thesis by (simp add: attention_run_state)
next
  case (Inr p)
  obtain blk k where p: "p = (blk, k)" by (cases p)
  obtain r self1 where bl: "attention_build self w k = (r, self1)" by (cases "attention_build self w k")
  have s1: "trunk_layers self1 = trunk_layers self" "trunk_config self1 = trunk_config self"
    using attention_build_trunk[of self w k] bl by simp_all
  show ?thesis
    using Inr p bl s1 attention_reshape_trunk[of self1 w blk b k]
    by (cases r) (simp_all add: attention_run_state)
qed

lemma apply_attention_state: "snd (apply_attention self w enc b) = snd (attention_run self w enc b)"
  by (auto simp: apply_attention_def split: prod.splits sum.splits option.splits)

lemma encode_state_trunk:
  "trunk_layers (snd (encode_state self w state)) = trunk_layers self \<and>
   trunk_config (snd (encode_state self w state)) = trunk_config self"
proof -
  obtain r enc where f: "AssetEncoder_forward (asset_encoder self) state (action_size self) = (r, enc)"
    by (cases "AssetEncoder_forward (asset_encoder self) state (action_size self)")
  let ?s = "self\<lparr>asset_encoder := enc\<rparr>"
  have s: "trunk_layers ?s = trunk_layers self" "trunk_config ?s = trunk_config self"
    by (simp_all add: trunk_layers_def trunk_config_def)
  show ?thesis
  proof (cases r)
    case (Inl e)
    then show ?thesis using f s by (simp add: encode_state_def on_ok_def Let_def)
  next
    case (Inr y)
    show ?thesis
    proof (cases "use_attention self")
      case True
      then show ?thesis
        using f Inr s attention_run_trunk[of ?s w y "size0 state"]
        by (simp add: encode_state_def on_ok_def Let_def apply_attention_state)
    next
      case False
      then show ?thesis using f Inr s by (simp add: encode_state_def on_ok_def Let_def)
    qed
  qed
qed

lemma reset_hidden_fresh:
  "reset_hidden d (nn_Linear i n d) =
     (if i = 0 then Inl RuntimeError else Inr (fresh_linear (1 / sqrt (real i)) d i n))"
  by (simp add: reset_hidden_def hidden_init_def fresh_linear_def nn_Linear_def Let_def)

lemma initialize_layers_ok:
  assumes "width \<noteq> 0" and "fc1_units self \<noteq> 0"
  shows "initialize_layers self w width =
           (Inr (),
            self\<lparr>fc1 := Some (fresh_linear (1 / sqrt (real width)) (d_fc1 w) width (fc1_units self)),
                 ln1 := Some (nn_LayerNorm (fc1_units self)),
                 fc2 := Some (fresh_linear (1 / sqrt (real (fc1_units self))) (d_fc2 w)
                                (fc1_units self) (fc2_units self)),
                 ln2 := Some (nn_LayerNorm (fc2_units self)),
                 fc3 := Some (fresh_linear (3 / 10000) (d_fc3 w) (fc2_units self) (action_size self)),
                 layers_initialized := True\<rparr>)"
  using assms
  by (simp add: initialize_layers_def reset_parameters_def on_ok_def reset_hidden_fresh Let_def
      fresh_linear_def)

lemma initialize_layers_fails:
  assumes "width = 0 \<or> fc1_units self = 0"
  shows "\<exists>e s. initialize_layers self w width = (Inl e, s)"
  using assms
  by (auto simp: initialize_layers_def reset_parameters_def on_ok_def reset_hidden_fresh Let_def)

lemma trunk_forward_ok:
  assumes "trunk_layers self = fresh_trunk w width u1 u2 n" and "size1 enc = width"
  shows "\<exists>out. trunk_forward self enc = Inr out \<and> size0 out = size0 enc \<and> size1 out = n"
  using assms
  by (simp add: trunk_layers_def fresh_trunk_def trunk_forward_def linear2_def layernorm2_def
      relu2_def fresh_linear_def uniform_fill_def nn_Linear_def nn_LayerNorm_def)

lemma ensure_trunk_cases:
  assumes "ensure_trunk s w width = (Inr u, s2)"
  shows "(built_width s = Some width \<and> s2 = s) \<or>
         (built_width s \<noteq> Some width \<and> width \<noteq> 0 \<and> fc1_units s \<noteq> 0 \<and>
          initialize_layers s w width = (Inr (), s2))"
proof -
  have init: "width \<noteq> 0 \<and> fc1_units s \<noteq> 0" if "initialize_layers s w width = (Inr u, s2)"
  proof (rule ccontr)
    assume "\<not> (width \<noteq> 0 \<and> fc1_units s \<noteq> 0)"
    then have "width = 0 \<or> fc1_units s = 0" by simp
    from initialize_layers_fails[OF this, of w] that show False by auto
  qed
  show ?thesis
  proof (cases "layers_initialized s")
    case False
    then have "initialize_layers s w width = (Inr u, s2)"
      using assms by (simp add: ensure_trunk_def trunk_stale_def on_ok_def)
    then show ?thesis using False init by (simp add: built_width_def)
  next
    case True
    show ?thesis
    proof (cases "fc1 s")
      case None
      then show ?thesis using assms True by (simp add: ensure_trunk_def trunk_stale_def on_ok_def)
    next
      case (Some L)
      show ?thesis
      proof (cases "in_features L = width")
        case same: True
        then show ?thesis
          using assms True Some by (simp add: ensure_trunk_def trunk_stale_def on_ok_def built_width_def)
      next
        case diff: False
        then have "initialize_layers s w width = (Inr u, s2)"
          using assms True Some by (simp add: ensure_trunk_def trunk_stale_def on_ok_def)
        then show ?thesis using True Some diff init by (simp add: built_width_def)
      qed
    qed
  qed
qed

text \<open>
  Claim C4. Take a \<^verbatim>\<open>forward\<close> call of the actor that returns. The encoder and the
  attention step leave the trunk as it was. If the trunk exists and its first layer takes
  the encoded width of this call, nothing is rebuilt: the actor after the call is the one
  after the encoding. In every other case, the first call included, the five trunk layers
  are replaced by fresh ones, which depend on the generator's draws, the encoded width, the
  two hidden sizes and \<^verbatim>\<open>action_size\<close> and on nothing of the old trunk: for draws in [0, 1)
  the hidden weights lie in \<^verbatim>\<open>+-1/sqrt(fan_in)\<close>, the output weights in \<^verbatim>\<open>+-3e-4\<close>, every
  bias is 0, and the two normalisations are new. After the call the trunk's input width is
  the encoded width of the call. (That the draws are uniform is a property of the
  generator, which the model takes as given.)
\<close>

theorem trunk_follows_encoded_width:
  assumes "EnhancedPortfolioActor_forward self w state = (Inr out, self2)"
  shows "\<exists>encoded self1.
     encode_state self w state = (Inr encoded, self1) \<and>
     trunk_layers self1 = trunk_layers self \<and> trunk_config self1 = trunk_config self \<and>
     built_width self2 = Some (size1 encoded) \<and>
     (built_width self = Some (size1 encoded) \<longrightarrow> self2 = self1) \<and>
     (built_width self \<noteq> Some (size1 encoded) \<longrightarrow>
        trunk_layers self2
          = fresh_trunk w (size1 encoded) (fc1_units self) (fc2_units self) (action_size self) \<and>
        (unit_draws (d_fc1 w) \<and> unit_draws (d_fc2 w) \<and> unit_draws (d_fc3 w) \<longrightarrow>
           (\<exists>l1 l2 l3.
              trunk_layers self2 = (Some l1, Some (nn_LayerNorm (fc1_units self)), Some l2,
                                    Some (nn_LayerNorm (fc2_units self)), Some l3) \<and>
              weights_within (1 / sqrt (real (size1 encoded))) l1 \<and>
              weights_within (1 / sqrt (real (fc1_units self))) l2 \<and>
              weights_within (3 / 10000) l3)))"
proof -
  obtain r self1 where es: "encode_state self w state = (r, self1)"
    by (cases "encode_state self w state")
  from assms es obtain encoded where r: "r = Inr encoded"
    by (cases r) (simp_all add: EnhancedPortfolioActor_forward_def)
  let ?width = "size1 encoded"
  obtain r2 s2 where et: "ensure_trunk self1 w ?width = (r2, s2)"
    by (cases "ensure_trunk self1 w ?width")
  from assms es r et have r2: "r2 = Inr ()" and s2: "s2 = self2"
    by (cases r2; simp add: EnhancedPortfolioActor_forward_def)+
  have keep: "trunk_layers self1 = trunk_layers self" "trunk_config self1 = trunk_config self"
    using encode_state_trunk[of self w state] es by simp_all
  have bw: "built_width self1 = built_width self"
    using keep by (simp add: built_width_def trunk_layers_def trunk_config_def)
  have cfg: "fc1_units self1 = fc1_units self" "fc2_units self1 = fc2_units self"
    "action_size self1 = action_size self"
    using keep(2) by (simp_all add: trunk_config_def)
  from ensure_trunk_cases[of self1 w ?width "()" self2] et r2 s2
  consider (same) "built_width self1 = Some ?width" "self2 = self1"
    | (rebuilt) "built_width self1 \<noteq> Some ?width" "?width \<noteq> 0" "fc1_units self1 \<noteq> 0"
        "initialize_layers self1 w ?width = (Inr (), self2)"
    by auto
  then have main:
    "built_width self2 = Some ?width \<and>
     (built_width self = Some ?width \<longrightarrow> self2 = self1) \<and>
     (built_width self \<noteq> Some ?width \<longrightarrow>
        trunk_layers self2
          = fresh_trunk w ?width (fc1_units self) (fc2_units self) (action_size self) \<and>
        (unit_draws (d_fc1 w) \<and> unit_draws (d_fc2 w) \<and> unit_draws (d_fc3 w) \<longrightarrow>
           (\<exists>l1 l2 l3.
              trunk_layers self2 = (Some l1, Some (nn_LayerNorm (fc1_units self)), Some l2,
                                    Some (nn_LayerNorm (fc2_units self)), Some l3) \<and>
              weights_within (1 / sqrt (real ?width)) l1 \<and>
              weights_within (1 / sqrt (real (fc1_units self))) l2 \<and>
              weights_within (3 / 10000) l3)))"
  proof cases
    case same
    then show ?thesis using bw by simp
  next
    case rebuilt
    from initialize_layers_ok[OF rebuilt(2,3), of w] rebuilt(4)
    have tl: "trunk_layers self2
                = fresh_trunk w ?width (fc1_units self) (fc2_units self) (action_size self)"
      and li: "layers_initialized self2"
      and f1: "fc1 self2 = Some (fresh_linear (1 / sqrt (real ?width)) (d_fc1 w) ?width (fc1_units self))"
      using cfg by (auto simp: trunk_layers_def fresh_trunk_def)
    have b2: "built_width self2 = Some ?width"
      using li f1 by (simp add: built_width_def fresh_linear_def uniform_fill_def nn_Linear_def)
    have p1: "0 < 1 / sqrt (real ?width)" using rebuilt(2) by simp
    have p2: "0 < 1 / sqrt (real (fc1_units self))" using rebuilt(3) cfg by simp
    have p3: "(0::real) < 3 / 10000" by simp
    have bounds: "\<exists>l1 l2 l3.
              trunk_layers self2 = (Some l1, Some (nn_LayerNorm (fc1_units self)), Some l2,
                                    Some (nn_LayerNorm (fc2_units self)), Some l3) \<and>
              weights_within (1 / sqrt (real ?width)) l1 \<and>
              weights_within (1 / sqrt (real (fc1_units self))) l2 \<and>
              weights_within (3 / 10000) l3"
      if "unit_draws (d_fc1 w)" "unit_draws (d_fc2 w)" "unit_draws (d_fc3 w)"
      using tl fresh_linear_within[OF that(1) p1] fresh_linear_within[OF that(2) p2]
        fresh_linear_within[OF that(3) p3]
      by (simp add: fresh_trunk_def)
    show ?thesis using b2 rebuilt(1) bw tl bounds by simp
  qed
  have es': "encode_state self w state = (Inr encoded, self1)" using es r by simp
  from es' keep main show ?thesis by blast
qed

lemma forward_first_call:
  assumes es: "encode_state self w state = (Inr z, self1)"
    and un: "\<not> layers_initialized self" and w0: "size1 z \<noteq> 0" and u0: "fc1_units self \<noteq> 0"
  shows "\<exists>out self2. EnhancedPortfolioActor_forward self w state = (Inr out, self2) \<and>
           initialize_layers self1 w (size1 z) = (Inr (), self2)"
proof -
  have keep: "trunk_config self1 = trunk_config self"
    using encode_state_trunk[of self w state] es by simp
  then have un1: "\<not> layers_initialized self1" and u1: "fc1_units self1 \<noteq> 0"
    using un u0 by (simp_all add: trunk_config_def)
  let ?s2 = "self1\<lparr>fc1 := Some (fresh_linear (1 / sqrt (real (size1 z))) (d_fc1 w) (size1 z) (fc1_units self1)),
                 ln1 := Some (nn_LayerNorm (fc1_units self1)),
                 fc2 := Some (fresh_linear (1 / sqrt (real (fc1_units self1))) (d_fc2 w)
                                (fc1_units self1) (fc2_units self1)),
                 ln2 := Some (nn_LayerNorm (fc2_units self1)),
                 fc3 := Some (fresh_linear (3 / 10000) (d_fc3 w) (fc2_units self1) (action_size self1)),
                 layers_initialized := True\<rparr>"
  have il: "initialize_layers self1 w (size1 z) = (Inr (), ?s2)"
    using initialize_layers_ok[OF w0 u1] .
  have et: "ensure_trunk self1 w (size1 z) = (Inr (), ?s2)"
    using un1 il by (simp add: ensure_trunk_def trunk_stale_def on_ok_def)
  have tl: "trunk_layers ?s2 = fresh_trunk w (size1 z) (fc1_units self1) (fc2_units self1) (action_size self1)"
    by (simp add: trunk_layers_def fresh_trunk_def)
  from trunk_forward_ok[OF tl refl] obtain out where "trunk_forward ?s2 z = Inr out" by blast
  then show ?thesis
    using es et il by (simp add: EnhancedPortfolioActor_forward_def)
qed

lemma forward_same_width:
  assumes es: "encode_state self w state = (Inr z, self1)"
    and li: "layers_initialized self"
    and tl: "trunk_layers self = fresh_trunk w' (size1 z) u1 u2 n"
  shows "\<exists>out. EnhancedPortfolioActor_forward self w state = (Inr out, self1)"
proof -
  have keep: "trunk_layers self1 = trunk_layers self" "trunk_config self1 = trunk_config self"
    using encode_state_trunk[of self w state] es by simp_all
  have li1: "layers_initialized self1" using keep(2) li by (simp add: trunk_config_def)
  have f1: "fc1 self1 = Some (fresh_linear (1 / sqrt (real (size1 z))) (d_fc1 w') (size1 z) u1)"
    using keep(1) tl by (simp add: trunk_layers_def fresh_trunk_def)
  have et: "ensure_trunk self1 w (size1 z) = (Inr (), self1)"
    using li1 f1
    by (simp add: ensure_trunk_def trunk_stale_def on_ok_def fresh_linear_def uniform_fill_def
        nn_Linear_def)
  have "trunk_layers self1 = fresh_trunk w' (size1 z) u1 u2 n" using keep(1) tl by simp
  from trunk_forward_ok[OF this refl] obtain out where "trunk_forward self1 z = Inr out" by blast
  then show ?thesis using es et by (simp add: EnhancedPortfolioActor_forward_def)
qed

lemma plain_encode_state:
  assumes "use_attention self = False" and "asset_encoder self = example_encoder 4 4\<lparr>first_forward_done := f\<rparr>"
    and "action_size self = 3"
  shows "\<exists>z. encode_state self w observation_14
           = (Inr z, self\<lparr>asset_encoder := example_encoder 4 4\<lparr>first_forward_done := True\<rparr>\<rparr>) \<and>
           size1 z = 14"
proof -
  have wf: "encoder_wf (example_encoder 4 4\<lparr>first_forward_done := f\<rparr>)"
    using encoder_wf_example[of 4 4] by (simp add: encoder_wf_def)
  from forward_shape[OF wf, of observation_14 3]
  obtain y where y: "AssetEncoder_forward (example_encoder 4 4\<lparr>first_forward_done := f\<rparr>) observation_14 3
                       = (Inr y, example_encoder 4 4\<lparr>first_forward_done := True\<rparr>)"
    "size1 y = 14"
    by (auto simp: example_encoder_def observation_14_def)
  show ?thesis
    using y assms by (simp add: encode_state_def on_ok_def Let_def)
qed

lemma unit_draws_half: "unit_draws half_draws"
  by (simp add: unit_draws_def half_draws_def)

lemma attention_encode_state:
  "\<exists>z self1. encode_state (example_actor 14 4) half_actor_draws observation_14 = (Inr z, self1) \<and>
     size1 z = 26"
proof -
  let ?A = "example_actor 14 4"
  have sel: "asset_encoder ?A = example_encoder 4 4" "action_size ?A = 3"
    "features_per_asset (example_encoder 4 4) = 4" "output_size (example_encoder 4 4) = 4"
    "size1 observation_14 = 14"
    by (simp_all add: example_actor_def example_encoder_def observation_14_def)
  have h1: "encoder_wf (asset_encoder ?A)" by (simp add: sel encoder_wf_example)
  have h2: "tensor2_wf observation_14" by (simp add: tensor2_wf_def observation_14_def)
  have h3: "use_attention ?A" by (simp add: example_actor_def)
  have h4: "act_features_per_asset ?A = features_per_asset (asset_encoder ?A)"
    by (simp add: example_actor_def example_encoder_def)
  have h5: "action_size ?A \<noteq> 0" by (simp add: sel)
  have h6: "output_size (asset_encoder ?A) \<noteq> 0" by (simp add: sel)
  have h7: "attention_fits ?A" by (simp add: attention_fits_def example_actor_def)
  have h8: "action_size ?A * features_per_asset (asset_encoder ?A) < size1 observation_14"
    by (simp add: sel)
  have h9: "extra_features ?A
           = int (size1 observation_14) - int (action_size ?A * features_per_asset (asset_encoder ?A))"
    by (simp add: sel) (simp add: example_actor_def)
  have h10: "action_size ?A * features_per_asset (asset_encoder ?A)
           < action_size ?A * output_size (asset_encoder ?A)
             + (size1 observation_14 - action_size ?A * features_per_asset (asset_encoder ?A))"
    by (simp add: sel)
  from encode_state_tail[OF h1 h2 h3 h4 h5 h6 h7 h8 h9 h10, of half_actor_draws]
  obtain z where z: "fst (encode_state ?A half_actor_draws observation_14) = Inr z" "size1 z = 26"
    by (auto simp: sel)
  then show ?thesis by (cases "encode_state ?A half_actor_draws observation_14") auto
qed

theorem trunk_follows_encoded_width_witness:
  "\<exists>out1 a1 out2 a2 out3 a3.
     EnhancedPortfolioActor_forward plain_actor half_actor_draws observation_14 = (Inr out1, a1) \<and>
     built_width plain_actor = None \<and> built_width a1 = Some 14 \<and>
     trunk_layers a1 = fresh_trunk half_actor_draws 14 2 2 3 \<and>
     (\<exists>l1 l2 l3.
        trunk_layers a1 = (Some l1, Some (nn_LayerNorm 2), Some l2, Some (nn_LayerNorm 2), Some l3) \<and>
        weights_within (1 / sqrt 14) l1 \<and> weights_within (1 / sqrt 2) l2 \<and>
        weights_within (3 / 10000) l3) \<and>
     EnhancedPortfolioActor_forward a1 half_actor_draws observation_14 = (Inr out2, a2) \<and>
     built_width a2 = Some 14 \<and> trunk_layers a2 = trunk_layers a1 \<and>
     EnhancedPortfolioActor_forward (example_actor 14 4) half_actor_draws observation_14 = (Inr out3, a3) \<and>
     built_width a3 = Some 26 \<and>
     trunk_layers a3 = fresh_trunk half_actor_draws 26 2 2 3"
proof -
  let ?w = half_actor_draws
  let ?enc1 = "example_encoder 4 4\<lparr>first_forward_done := True\<rparr>"
  have psel: "use_attention plain_actor = False" "action_size plain_actor = 3"
    "asset_encoder plain_actor = example_encoder 4 4\<lparr>first_forward_done := False\<rparr>"
    "\<not> layers_initialized plain_actor" "fc1_units plain_actor = 2" "fc2_units plain_actor = 2"
    by (simp_all add: plain_actor_def example_actor_def example_encoder_def)
  have bw0: "built_width plain_actor = None" using psel(4) by (simp add: built_width_def)
  \<comment> \<open>first call: no trunk yet\<close>
  from plain_encode_state[OF psel(1) psel(3) psel(2), of ?w]
  obtain z where z: "encode_state plain_actor ?w observation_14
                       = (Inr z, plain_actor\<lparr>asset_encoder := ?enc1\<rparr>)" "size1 z = 14"
    by blast
  have z0: "size1 z \<noteq> 0" and u0: "fc1_units plain_actor \<noteq> 0" using z(2) psel(5) by simp_all
  from forward_first_call[OF z(1) psel(4) z0 u0]
  obtain out1 a1 where c1: "EnhancedPortfolioActor_forward plain_actor ?w observation_14 = (Inr out1, a1)"
    and il: "initialize_layers (plain_actor\<lparr>asset_encoder := ?enc1\<rparr>) ?w (size1 z) = (Inr (), a1)"
    by blast
  from trunk_follows_encoded_width[OF c1] z bw0 psel
  have r1: "built_width a1 = Some 14" "trunk_layers a1 = fresh_trunk ?w 14 2 2 3"
    by auto
  have ud: "unit_draws (d_fc1 ?w)" "unit_draws (d_fc2 ?w)" "unit_draws (d_fc3 ?w)"
    by (simp_all add: half_actor_draws_def unit_draws_half)
  from trunk_follows_encoded_width[OF c1] z bw0 psel ud
  have b1: "\<exists>l1 l2 l3.
        trunk_layers a1 = (Some l1, Some (nn_LayerNorm 2), Some l2, Some (nn_LayerNorm 2), Some l3) \<and>
        weights_within (1 / sqrt 14) l1 \<and> weights_within (1 / sqrt 2) l2 \<and>
        weights_within (3 / 10000) l3"
    by auto metis
  \<comment> \<open>second call: the same width\<close>
  have a1: "use_attention a1 = False" "action_size a1 = 3" "asset_encoder a1 = ?enc1"
    "layers_initialized a1"
    using il initialize_layers_ok[of "size1 z" "plain_actor\<lparr>asset_encoder := ?enc1\<rparr>" ?w] z0 psel
    by auto
  from plain_encode_state[OF a1(1) a1(3) a1(2), of ?w]
  obtain z2 where z2: "encode_state a1 ?w observation_14 = (Inr z2, a1\<lparr>asset_encoder := ?enc1\<rparr>)"
    "size1 z2 = 14" by blast
  have tl1: "trunk_layers a1 = fresh_trunk ?w (size1 z2) 2 2 3" using r1(2) z2(2) by simp
  from forward_same_width[OF z2(1) a1(4) tl1]
  obtain out2 where c2: "EnhancedPortfolioActor_forward a1 ?w observation_14
                           = (Inr out2, a1\<lparr>asset_encoder := ?enc1\<rparr>)" by blast
  from trunk_follows_encoded_width[OF c2] z2 r1(1)
  have r2: "built_width (a1\<lparr>asset_encoder := ?enc1\<rparr>) = Some 14"
    "trunk_layers (a1\<lparr>asset_encoder := ?enc1\<rparr>) = trunk_layers a1"
    by auto
  \<comment> \<open>with the attention step the encoded width is 26\<close>
  from attention_encode_state obtain z3 s3 where
    z3: "encode_state (example_actor 14 4) ?w observation_14 = (Inr z3, s3)" "size1 z3 = 26"
    by blast
  have asel: "\<not> layers_initialized (example_actor 14 4)" "fc1_units (example_actor 14 4) = 2"
    "fc2_units (example_actor 14 4) = 2" "action_size (example_actor 14 4) = 3"
    by (simp_all add: example_actor_def)
  have z30: "size1 z3 \<noteq> 0" and u30: "fc1_units (example_actor 14 4) \<noteq> 0"
    using z3(2) asel(2) by simp_all
  from forward_first_call[OF z3(1) asel(1) z30 u30]
  obtain out3 a3 where c3: "EnhancedPortfolioActor_forward (example_actor 14 4) ?w observation_14
                             = (Inr out3, a3)" by blast
  have bwA: "built_width (example_actor 14 4) = None" using asel(1) by (simp add: built_width_def)
  from trunk_follows_encoded_width[OF c3] z3 bwA asel
  have r3: "built_width a3 = Some 26" "trunk_layers a3 = fresh_trunk ?w 26 2 2 3"
    by auto
  show ?thesis using c1 bw0 r1 b1 c2 r2 c3 r3 by blast
qed

section \<open>The reshape fallback of the attention step\<close>

lemma attention_pad_wf:
  assumes "tensor2_wf enc" and "attention_pad self enc b = Inr (blk, k)" and "b = size0 enc"
  shows "tensor2_wf blk"
proof -
  have len: "length (data2 enc) = size0 enc" and
       rows: "\<And>r. r \<in> set (data2 enc) \<Longrightarrow> length r = size1 enc"
    using assms(1) by (auto simp: tensor2_wf_def list_all_iff)
  have z: "map2 (@) (data2 enc) (replicate (size0 enc) (replicate p 0))
             = map (\<lambda>r. r @ replicate p 0) (data2 enc)" for p :: nat
    using len by (rule map2_replicate_right)
  show ?thesis
    using assms(2,3) assms(1) len rows
    by (auto simp: attention_pad_def Let_def cat1_def zeros_def z tensor2_wf_def list_all_iff
        split: if_splits)
qed

lemma strip_tail_wf:
  assumes "tensor2_wf enc"
  shows "tensor2_wf (snd (strip_tail self enc))" and "size0 (snd (strip_tail self enc)) = size0 enc"
  using assms
  by (auto simp: strip_tail_def Let_def drop_last_columns_def tensor2_wf_def list_all_iff)

lemma encode_assets_size0:
  "encode_assets self a ex b n = Inr y \<Longrightarrow> size0 y = b"
  by (auto simp: encode_assets_def view2_def cat1_def
      split: sum.splits option.splits if_splits)

lemma forward_batch_size:
  assumes "AssetEncoder_forward self state n = (Inr y, self')"
  shows "size0 y = size0 state"
  using assms encode_assets_size0 by (auto simp: AssetEncoder_forward_eq Let_def)

lemma encode_state_call:
  assumes "AssetEncoder_forward (asset_encoder self) state (action_size self) = (Inr y, enc1)"
    and "use_attention self"
  shows "encode_state self w state = apply_attention (self\<lparr>asset_encoder := enc1\<rparr>) w y (size0 y)"
  using assms forward_batch_size[OF assms(1)]
  by (simp add: encode_state_def on_ok_def Let_def)

text \<open>
  Claim C10, as stated, at a call of \<^verbatim>\<open>apply_attention\<close> whose \<^verbatim>\<open>batch_size\<close> argument is
  not the batch size of the tensor: a contiguous batch of two rows of width 12 with
  \<^verbatim>\<open>batch_size = 1\<close> and three assets. The width 12 is divisible by 3, nothing is padded and
  the explicit check builds the projections for width 4; \<^verbatim>\<open>view(1, 3, 4)\<close> of 24 elements
  raises RuntimeError, the \<^verbatim>\<open>except\<close> branch recomputes the width \<^verbatim>\<open>24 // 3 = 8\<close>, rebuilds both
  projections for it, and the call returns a batch of shape (1, 48). The actor after the
  call is not the one the explicit check left.
\<close>

theorem attention_reshape_always_fits_counterexample:
  "size0 two_rows_12 = 2 \<and>
   attention_pad (example_actor 12 4) (snd (strip_tail (example_actor 12 4) two_rows_12)) 1
     = Inr (two_rows_12, 4) \<and>
   view3 two_rows_12 1 3 4 = Inl RuntimeError \<and>
   snd (attention_build (example_actor 12 4) half_actor_draws 4)
     = example_actor 12 4\<lparr>attention := Some (zero_linear 4 1),
         value_proj := Some (zero_linear 4 4), effective_encoding_size := Some 4\<rparr> \<and>
   snd (attention_run (example_actor 12 4) half_actor_draws two_rows_12 1)
     = example_actor 12 4\<lparr>attention := Some (zero_linear 8 1),
         value_proj := Some (zero_linear 8 8), effective_encoding_size := Some 8\<rparr> \<and>
   snd (attention_run (example_actor 12 4) half_actor_draws two_rows_12 1)
     \<noteq> snd (attention_build (example_actor 12 4) half_actor_draws 4) \<and>
   map_sum id (\<lambda>t. (size0 t, size1 t))
     (fst (apply_attention (example_actor 12 4) half_actor_draws two_rows_12 1)) = Inr (1, 48)"
proof -
  let ?A = "example_actor 12 4"
  let ?A1 = "?A\<lparr>attention := Some (zero_linear 4 1), value_proj := Some (zero_linear 4 4),
                  effective_encoding_size := Some 4\<rparr>"
  let ?A2 = "?A\<lparr>attention := Some (zero_linear 8 1), value_proj := Some (zero_linear 8 8),
                  effective_encoding_size := Some 8\<rparr>"
  have n: "action_size ?A = 3" "action_size ?A1 = 3" "action_size ?A2 = 3"
    by (simp_all add: example_actor_def)
  have s: "size0 two_rows_12 = 2" "size1 two_rows_12 = 12" "numel2 two_rows_12 = 24"
    by (simp_all add: two_rows_12_def numel2_def)
  have st: "strip_tail ?A two_rows_12 = (None, two_rows_12)"
    by (simp add: strip_tail_def example_actor_def Let_def)
  have pad: "attention_pad ?A two_rows_12 1 = Inr (two_rows_12, 4)"
    by (simp add: attention_pad_def n s Let_def)
  have v4: "view3 two_rows_12 1 3 4 = Inl RuntimeError"
    by (simp add: view3_def s)
  have b: "attention_build ?A half_actor_draws 4 = (Inr (), ?A1)"
    using initialize_attention_layers_half[of 4 ?A]
    by (simp add: attention_build_def example_actor_def half_actor_draws_def)
  have i8: "initialize_attention_layers ?A1 half_draws half_draws 8 = (Inr (), ?A2)"
    using initialize_attention_layers_half[of 8 ?A1] by simp
  have cs: "computeStride [2, 12] [12, 1] [1, 3, 8] = Some [24, 8, 1]"
    by code_simp
  have sel: "stride0 two_rows_12 = 12" "stride1 two_rows_12 = 1"
    by (simp_all add: two_rows_12_def)
  have "view3 two_rows_12 1 3 8 =
      Inr \<lparr>dim0 = 1, dim1 = 3, dim2 = 8,
           data3 = map (chunks 3 8) (chunks 1 (3 * 8) (concat (data2 two_rows_12)))\<rparr>"
    unfolding view3_def s sel cs by simp
  then obtain a where v8: "view3 two_rows_12 1 3 8 = Inr a" and
      a: "dim0 a = 1" "dim1 a = 3" "dim2 a = 8"
    by simp
  have r: "attention_reshape ?A1 half_actor_draws two_rows_12 1 4 = (Inr (a, 8), ?A2)"
    using n v4 s i8 v8 by (simp add: attention_reshape_def Let_def half_actor_draws_def)
  obtain tr where tr: "attention_mix ?A2 a 1 = Inr tr" "size0 (tr_flattened tr) = 1"
      "size1 (tr_flattened tr) = (8 + 8) * action_size ?A2"
    using attention_mix_ok[of ?A2 "zero_linear 8 1" 8 "zero_linear 8 8" a 1] a n
    by (auto simp: zero_linear_def)
  have run: "attention_run ?A half_actor_draws two_rows_12 1 = (Inr (tr, None), ?A2)"
    using st pad b r tr by (simp add: attention_run_def on_ok_def)
  have ne: "?A2 \<noteq> ?A1"
  proof
    assume "?A2 = ?A1"
    then have "effective_encoding_size ?A2 = effective_encoding_size ?A1" by (rule arg_cong)
    then show False by simp
  qed
  have ap: "apply_attention ?A half_actor_draws two_rows_12 1 = (Inr (tr_flattened tr), ?A2)"
    using run by (simp add: apply_attention_def)
  show ?thesis
    using s(1) pad v4 ne tr(2,3) n(3)
    by (simp only: st snd_conv b run ap fst_conv) simp
qed

text \<open>
  Claim C10, for calls with the batch size of the tensor, and for the call that \<^verbatim>\<open>forward\<close>
  makes. First part: when \<^verbatim>\<open>batch_size\<close> is the batch size of the tensor that
  \<^verbatim>\<open>apply_attention\<close> gets, then either \<^verbatim>\<open>action_size\<close> is 0 and the call ends in
  ZeroDivisionError with the actor untouched, or after the padding step the asset block
  has \<^verbatim>\<open>batch_size\<close> rows, is exactly \<^verbatim>\<open>action_size * effective_encoding_size\<close> wide, has
  \<^verbatim>\<open>batch_size * action_size * effective_encoding_size\<close> elements and is well formed if the
  input is, the reshape into (batch, action_size, effective_encoding_size) succeeds
  whatever the strides of the input, the \<^verbatim>\<open>try\<close> leaves the actor as the width check before
  it left it, and so the actor after the call is the one after that check: the \<^verbatim>\<open>except\<close>
  branch builds nothing. Second part: whenever the encoder returns in \<^verbatim>\<open>forward\<close> and the
  attention step is enabled, its output has the batch size of the observation batch and
  the attention step is called on it with that batch size, so the first part applies to
  every call that \<^verbatim>\<open>forward\<close> makes.
\<close>

theorem attention_reshape_always_fits:
  "(batch_size = size0 encoded_assets \<longrightarrow>
      (action_size self = 0 \<and>
       attention_run self w encoded_assets batch_size = (Inl ZeroDivisionError, self)) \<or>
      (\<exists>blk eff_size.
         attention_pad self (snd (strip_tail self encoded_assets)) batch_size
           = Inr (blk, eff_size) \<and>
         size0 blk = batch_size \<and>
         size1 blk = action_size self * eff_size \<and>
         numel2 blk = batch_size * action_size self * eff_size \<and>
         (tensor2_wf encoded_assets \<longrightarrow> tensor2_wf blk) \<and>
         (\<exists>a. view3 blk batch_size (action_size self) eff_size = Inr a) \<and>
         (\<forall>self1 u. attention_build self w eff_size = (Inr u, self1) \<longrightarrow>
            (\<exists>a. attention_reshape self1 w blk batch_size eff_size = (Inr (a, eff_size), self1))) \<and>
         snd (attention_run self w encoded_assets batch_size)
           = snd (attention_build self w eff_size))) \<and>
   (\<forall>state y enc1.
      AssetEncoder_forward (asset_encoder self) state (action_size self) = (Inr y, enc1) \<and>
      use_attention self \<longrightarrow>
        size0 y = size0 state \<and>
        encode_state self w state
          = apply_attention (self\<lparr>asset_encoder := enc1\<rparr>) w y (size0 y))"
proof (intro conjI impI allI)
  assume bs: "batch_size = size0 encoded_assets"
  show "(action_size self = 0 \<and>
       attention_run self w encoded_assets batch_size = (Inl ZeroDivisionError, self)) \<or>
      (\<exists>blk eff_size.
         attention_pad self (snd (strip_tail self encoded_assets)) batch_size
           = Inr (blk, eff_size) \<and>
         size0 blk = batch_size \<and>
         size1 blk = action_size self * eff_size \<and>
         numel2 blk = batch_size * action_size self * eff_size \<and>
         (tensor2_wf encoded_assets \<longrightarrow> tensor2_wf blk) \<and>
         (\<exists>a. view3 blk batch_size (action_size self) eff_size = Inr a) \<and>
         (\<forall>self1 u. attention_build self w eff_size = (Inr u, self1) \<longrightarrow>
            (\<exists>a. attention_reshape self1 w blk batch_size eff_size = (Inr (a, eff_size), self1))) \<and>
         snd (attention_run self w encoded_assets batch_size)
           = snd (attention_build self w eff_size))"
  proof (cases "action_size self = 0")
    case True
    then show ?thesis
      by (auto simp: attention_run_def attention_pad_def on_ok_def Let_def split: prod.splits)
  next
    case False
    obtain extra enc1 where st: "strip_tail self encoded_assets = (extra, enc1)"
      by (cases "strip_tail self encoded_assets")
    have b1: "batch_size = size0 enc1"
      using st bs by (auto simp: strip_tail_def drop_last_columns_def Let_def split: if_splits)
    let ?k = "(size1 enc1 + action_size self - 1) div action_size self"
    from attention_pad_ok[OF False b1]
    obtain blk where blk: "attention_pad self enc1 batch_size = Inr (blk, ?k)"
      "size0 blk = size0 enc1" "size1 blk = action_size self * ?k" by blast
    have numel: "numel2 blk = batch_size * action_size self * ?k"
      using blk(2,3) b1 by (simp add: numel2_def)
    have wf: "tensor2_wf blk" if "tensor2_wf encoded_assets"
      using attention_pad_wf[OF _ blk(1) b1] strip_tail_wf(1)[OF that, of self] st by simp
    have v: "\<exists>a. view3 blk batch_size (action_size self) ?k = Inr a"
      using view3_fits[of batch_size blk "action_size self" ?k] blk(2,3) b1 by simp
    have r: "\<exists>a. attention_reshape self1 w blk batch_size ?k = (Inr (a, ?k), self1)"
      if "attention_build self w ?k = (Inr u, self1)" for self1 u
    proof -
      have "action_size self1 = action_size self"
        using attention_build_action_size[of self w ?k] that by simp
      then show ?thesis
        using attention_reshape_ok[of blk self1 ?k batch_size w] blk(2,3) b1 by simp
    qed
    have s: "snd (attention_run self w encoded_assets batch_size) = snd (attention_build self w ?k)"
    proof (cases "attention_build self w ?k")
      case (Pair res self1)
      show ?thesis
      proof (cases res)
        case (Inl e)
        then show ?thesis using Pair st blk(1) by (simp add: attention_run_state)
      next
        case (Inr u)
        then show ?thesis using Pair st blk(1) r[of u self1]
          by (auto simp: attention_run_state)
      qed
    qed
    have "\<exists>blk eff_size.
         attention_pad self (snd (strip_tail self encoded_assets)) batch_size
           = Inr (blk, eff_size) \<and>
         size0 blk = batch_size \<and>
         size1 blk = action_size self * eff_size \<and>
         numel2 blk = batch_size * action_size self * eff_size \<and>
         (tensor2_wf encoded_assets \<longrightarrow> tensor2_wf blk) \<and>
         (\<exists>a. view3 blk batch_size (action_size self) eff_size = Inr a) \<and>
         (\<forall>self1 u. attention_build self w eff_size = (Inr u, self1) \<longrightarrow>
            (\<exists>a. attention_reshape self1 w blk batch_size eff_size = (Inr (a, eff_size), self1))) \<and>
         snd (attention_run self w encoded_assets batch_size)
           = snd (attention_build self w eff_size)"
      by (rule exI[of _ blk], rule exI[of _ ?k]) (use st blk b1 numel wf v r s in auto)
    then show ?thesis by blast
  qed
next
  fix state y enc1
  assume "AssetEncoder_forward (asset_encoder self) state (action_size self) = (Inr y, enc1) \<and>
      use_attention self"
  then show "size0 y = size0 state"
    using forward_batch_size by blast
next
  fix state y enc1
  assume "AssetEncoder_forward (asset_encoder self) state (action_size self) = (Inr y, enc1) \<and>
      use_attention self"
  then show "encode_state self w state
          = apply_attention (self\<lparr>asset_encoder := enc1\<rparr>) w y (size0 y)"
    using encode_state_call by blast
qed

theorem attention_reshape_always_fits_witness:
  "AssetEncoder_forward (asset_encoder (example_actor 14 3)) observation_14
       (action_size (example_actor 14 3))
     = (Inr encoded_11, example_encoder 4 3\<lparr>first_forward_done := True\<rparr>) \<and>
   use_attention (example_actor 14 3) \<and>
   size0 encoded_11 = size0 observation_14 \<and>
   tensor2_wf encoded_11 \<and>
   encode_state (example_actor 14 3) half_actor_draws observation_14
     = apply_attention
         (example_actor 14 3\<lparr>asset_encoder := example_encoder 4 3\<lparr>first_forward_done := True\<rparr>\<rparr>)
         half_actor_draws encoded_11 1 \<and>
   (\<exists>blk self1 a.
      attention_pad
          (example_actor 14 3\<lparr>asset_encoder := example_encoder 4 3\<lparr>first_forward_done := True\<rparr>\<rparr>)
          (snd (strip_tail
             (example_actor 14 3\<lparr>asset_encoder := example_encoder 4 3\<lparr>first_forward_done := True\<rparr>\<rparr>)
             encoded_11)) 1
        = Inr (blk, 4) \<and>
      size0 blk = 1 \<and> size1 blk = 12 \<and> numel2 blk = 12 \<and> tensor2_wf blk \<and>
      (\<exists>a. view3 blk 1 3 4 = Inr a) \<and>
      attention_build
          (example_actor 14 3\<lparr>asset_encoder := example_encoder 4 3\<lparr>first_forward_done := True\<rparr>\<rparr>)
          half_actor_draws 4 = (Inr (), self1) \<and>
      attention_reshape self1 half_actor_draws blk 1 4 = (Inr (a, 4), self1) \<and>
      snd (attention_run
          (example_actor 14 3\<lparr>asset_encoder := example_encoder 4 3\<lparr>first_forward_done := True\<rparr>\<rparr>)
          half_actor_draws encoded_11 1) = self1)"
proof -
  let ?A = "example_actor 14 3"
  let ?E = "example_encoder 4 3\<lparr>first_forward_done := True\<rparr>"
  let ?B = "?A\<lparr>asset_encoder := ?E\<rparr>"
  let ?B1 = "?B\<lparr>attention := Some (zero_linear 4 1), value_proj := Some (zero_linear 4 4),
                  effective_encoding_size := Some 4\<rparr>"
  have sel: "asset_encoder ?A = example_encoder 4 3" "action_size ?A = 3" "use_attention ?A"
    "action_size ?B = 3"
    by (simp_all add: example_actor_def)
  have fw: "AssetEncoder_forward (asset_encoder ?A) observation_14 (action_size ?A)
              = (Inr encoded_11, ?E)"
    by (simp add: sel encoder_on_observation_14)
  have s: "size0 encoded_11 = 1" "size0 observation_14 = 1"
    by (simp_all add: encoded_11_def observation_14_def)
  have wf: "tensor2_wf encoded_11"
    by (simp add: tensor2_wf_def encoded_11_def)
  have st: "strip_tail ?B encoded_11 = (None, encoded_11)"
    by (simp add: strip_tail_def example_actor_def encoded_11_def Let_def)
  have pad: "attention_pad ?B encoded_11 1 =
      Inr (\<lparr>size0 = 1, size1 = 12, stride0 = 12, stride1 = 1,
            data2 = [[0, 0, 0, 0, 0, 0, 0, 0, 0, 13, 14, 0]]\<rparr>, 4)"
    by (simp add: attention_pad_def example_actor_def encoded_11_def Let_def cat1_def zeros_def)
  have b: "attention_build ?B half_actor_draws 4 = (Inr (), ?B1)"
    using initialize_attention_layers_half[of 4 ?B]
    by (simp add: attention_build_def example_actor_def half_actor_draws_def)
  note inst1 = attention_reshape_always_fits[of 1 encoded_11 ?B half_actor_draws]
  note inst2 = attention_reshape_always_fits[of 1 encoded_11 ?A half_actor_draws]
  from inst2 fw sel(3)
  have c: "encode_state ?A half_actor_draws observation_14
             = apply_attention ?B half_actor_draws encoded_11 (size0 encoded_11)"
    by blast
  from inst1 s(1) sel(4)
  obtain blk eff_size where
    p: "attention_pad ?B (snd (strip_tail ?B encoded_11)) 1 = Inr (blk, eff_size)" and
    b0: "size0 blk = 1" and
    w: "size1 blk = action_size ?B * eff_size" and
    nu: "numel2 blk = 1 * action_size ?B * eff_size" and
    bwf: "tensor2_wf encoded_11 \<longrightarrow> tensor2_wf blk" and
    v: "\<exists>a. view3 blk 1 (action_size ?B) eff_size = Inr a" and
    r: "\<forall>self1 u. attention_build ?B half_actor_draws eff_size = (Inr u, self1) \<longrightarrow>
            (\<exists>a. attention_reshape self1 half_actor_draws blk 1 eff_size
                   = (Inr (a, eff_size), self1))" and
    e: "snd (attention_run ?B half_actor_draws encoded_11 1)
          = snd (attention_build ?B half_actor_draws eff_size)"
    by auto
  have k: "eff_size = 4" using p pad by (simp only: st snd_conv) simp
  from r b obtain a where
    a: "attention_reshape ?B1 half_actor_draws blk 1 4 = (Inr (a, 4), ?B1)"
    unfolding k by blast
  have "attention_pad ?B (snd (strip_tail ?B encoded_11)) 1 = Inr (blk, 4) \<and>
      size0 blk = 1 \<and> size1 blk = 12 \<and> numel2 blk = 12 \<and> tensor2_wf blk \<and>
      (\<exists>a. view3 blk 1 3 4 = Inr a) \<and>
      attention_build ?B half_actor_draws 4 = (Inr (), ?B1) \<and>
      attention_reshape ?B1 half_actor_draws blk 1 4 = (Inr (a, 4), ?B1) \<and>
      snd (attention_run ?B half_actor_draws encoded_11 1) = ?B1"
    using p b0 w nu bwf wf v b a e unfolding k sel(4) by simp
  then have ex: "\<exists>blk self1 a.
      attention_pad ?B (snd (strip_tail ?B encoded_11)) 1 = Inr (blk, 4) \<and>
      size0 blk = 1 \<and> size1 blk = 12 \<and> numel2 blk = 12 \<and> tensor2_wf blk \<and>
      (\<exists>a. view3 blk 1 3 4 = Inr a) \<and>
      attention_build ?B half_actor_draws 4 = (Inr (), self1) \<and>
      attention_reshape self1 half_actor_draws blk 1 4 = (Inr (a, 4), self1) \<and>
      snd (attention_run ?B half_actor_draws encoded_11 1) = self1"
    by blast
  show ?thesis
    using fw sel(3) s wf c ex by simp
qed

end
